theory Spec2Isabelle
  imports Main "HOL-Library.Word"
begin

section \<open>Values shared by the whole client\<close>

type_synonym PeerIdB58 = string

type_synonym bytes = "8 word list"

text \<open>
  JavaScript can throw any value. An \<open>Error\<close> object is known by its class and its
  message; \<open>ServiceError\<close>, \<open>ExpirationError\<close>, \<open>InterpreterError\<close> and \<open>SendError\<close> are
  subclasses of \<open>Error\<close>. A thrown value that is no \<open>Error\<close> object is kept by its
  rendering \<open>String(e)\<close>.
\<close>

datatype error_class = Error | ServiceError | ExpirationError | InterpreterError | SendError

datatype thrown = Err error_class string | NonError string

fun instanceofError :: "thrown \<Rightarrow> bool" where
  "instanceofError (Err c m) = True"
| "instanceofError (NonError v) = False"

fun instanceofServiceError :: "thrown \<Rightarrow> bool" where
  "instanceofServiceError (Err c m) = (c = ServiceError)"
| "instanceofServiceError (NonError v) = False"

fun message :: "thrown \<Rightarrow> string" where
  "message (Err c m) = m"
| "message (NonError v) = v"

section \<open>RelayConnection (src/unnamed/part\_001)\<close>

definition PROTOCOL_NAME :: string where
  "PROTOCOL_NAME = ''/fluence/particle/2.0.0''"

text \<open>
  The connection holds the relay's address and peer id. The libp2p node is outside the
  program: \<open>dialProtocol\<close> is the answer of \<open>this._lib2p2Peer.dialProtocol\<close> for an
  address and a protocol (it throws, or gives a stream), and \<open>sink\<close> collects, in order,
  the payloads piped into the streams that were opened.
\<close>

record RelayConnection =
  peerId :: PeerIdB58
  relayAddress :: string
  relayPeerId :: PeerIdB58
  dialProtocol :: "string \<Rightarrow> string \<Rightarrow> thrown + unit"
  sink :: "string list"

text \<open>\<open>nextPeerIds[0]\<close>: \<open>undefined\<close> (here \<open>None\<close>) on the empty array.\<close>

fun first_elem :: "'a list \<Rightarrow> 'a option" where
  "first_elem [] = None"
| "first_elem (x # xs) = Some x"

text \<open>
  \<open>sendParticle\<close>, with \<open>stringify\<close> for \<open>JSON.stringify\<close>. The guard is the source's
  \<open>nextPeerIds.length !== 1 && nextPeerIds[0] !== this.relayPeerId\<close>.
\<close>

definition sendParticle ::
  "(PeerIdB58 list \<Rightarrow> string) \<Rightarrow> RelayConnection \<Rightarrow> PeerIdB58 list \<Rightarrow> string
     \<Rightarrow> thrown + RelayConnection" where
  "sendParticle stringify c nextPeerIds particle =
     (if length nextPeerIds \<noteq> 1 \<and> first_elem nextPeerIds \<noteq> Some (relayPeerId c)
      then Inl (Err Error
        (''Relay connection only accepts peer id of the connected relay. Got: ''
           @ stringify nextPeerIds @ '' instead.''))
      else (case dialProtocol c (relayAddress c) PROTOCOL_NAME of
              Inl e \<Rightarrow> Inl e
            | Inr stream \<Rightarrow> Inr (c\<lparr>sink := sink c @ [particle]\<rparr>)))"

section \<open>JSON values and helpers that come from outside the program\<close>

datatype json =
  JNull | JBool bool | JNum int | JStr string | JArr "json list" | JObj "(string \<times> json) list"

text \<open>
  The built-ins \<open>JSON.stringify\<close> and \<open>JSON.parse\<close>, and the helpers \<open>jsonify\<close> and
  \<open>getErrorMessage\<close> of \<open>util/utils.js\<close>, which is not among the sources: they are
  parameters of the model.
\<close>

record externals =
  JSON_stringify :: "json \<Rightarrow> string"
  JSON_parse :: "string \<Rightarrow> thrown + json"
  jsonify :: "json \<Rightarrow> string"
  getErrorMessage :: "thrown \<Rightarrow> string"

definition squote :: string where
  "squote = [CHR 0x27]"

definition dquote :: string where
  "dquote = [CHR 0x22]"

definition startsWith :: "string \<Rightarrow> string \<Rightarrow> bool" where
  "startsWith s prefix = (take (length prefix) s = prefix)"

text \<open>A number in a template literal: a natural number prints in decimal.\<close>

definition digit_char :: "nat \<Rightarrow> char" where
  "digit_char n = ''0123456789'' ! (n mod 10)"

fun show_nat :: "nat \<Rightarrow> string" where
  "show_nat n = (if n < 10 then [digit_char n] else show_nat (n div 10) @ [digit_char n])"

declare show_nat.simps [simp del]

section \<open>Particles and queue items\<close>

text \<open>
  \<open>IParticle\<close> (\<open>particle/interfaces.js\<close>, not among the sources), with the fields the
  engine reads. \<open>timestamp\<close> and \<open>ttl\<close> are milliseconds.
\<close>

record Particle =
  id' :: string
  initPeerId :: PeerIdB58
  timestamp :: nat
  ttl :: nat
  script :: string
  data :: bytes
  signature :: bytes

text \<open>
  Modelled from the spec: \<open>cloneWithNewData\<close> of \<open>particle/Particle.js\<close>, which is not
  among the sources. \<open>cloneWithNewData(p, bytes)\<close> returns a new particle identical to
  \<open>p\<close> except \<open>data = bytes\<close>.
\<close>

definition cloneWithNewData :: "Particle \<Rightarrow> bytes \<Rightarrow> Particle" where
  "cloneWithNewData p newData = p\<lparr>data := newData\<rparr>"

text \<open>
  Modelled from the spec: \<open>hasExpired\<close> of \<open>particle/Particle.js\<close>, which is not among
  the sources. \<open>hasExpired(p)\<close> holds when \<open>now > p.timestamp + p.ttl\<close>. The clock
  reading \<open>now\<close> is an argument.
\<close>

definition hasExpired :: "nat \<Rightarrow> Particle \<Rightarrow> bool" where
  "hasExpired now p = (now > timestamp p + ttl p)"

text \<open>
  Modelled from the spec: \<open>getActualTTL\<close> of \<open>particle/Particle.js\<close>, which is not among
  the sources. \<open>getActualTTL(p)\<close> is the remaining time in milliseconds, at the clock
  reading \<open>now\<close>.
\<close>

definition getActualTTL :: "nat \<Rightarrow> Particle \<Rightarrow> int" where
  "getActualTTL now p = int (timestamp p) + int (ttl p) - int now"

text \<open>
  \<open>ResultCodes\<close> and \<open>CallServiceResult\<close> (\<open>jsServiceHost/interfaces.js\<close>). The record
  is also the shape of a packaged call result \<open>{result: jsonify(res.result), retCode}\<close>,
  whose \<open>result\<close> is a string.
\<close>

datatype ResultCodes = success | error

record 'r ServiceResult =
  retCode :: ResultCodes
  result :: 'r

type_synonym CallServiceResult = "json ServiceResult"

type_synonym CallResultsArray = "(nat \<times> string ServiceResult) list"

text \<open>
  The completion callbacks of a queue item are closures: \<open>NoOp\<close> is the \<open>() => {}\<close> given
  to particles that arrive from the network, \<open>Callback c\<close> any other one.
\<close>

datatype 'c callback = NoOp | Callback 'c

record 'c ParticleQueueItem =
  particle :: Particle
  callResults :: CallResultsArray
  onSuccess :: "'c callback"
  onError :: "'c callback"

text \<open>
  \<open>InterpreterResult\<close> and its call requests (\<open>@fluencelabs/avm\<close>). Tetraplets are
  passed on untouched.
\<close>

record CallRequest =
  serviceId' :: string
  functionName :: string
  arguments :: "json list"
  tetraplets' :: json

record InterpreterResult =
  retCode' :: int
  errorMessage :: string
  data' :: bytes
  nextPeerPks :: "PeerIdB58 list"
  callRequests :: "(nat \<times> CallRequest) list"

text \<open>A queue item after interpretation: \<open>{...item, result: avmCallResult}\<close>.\<close>

record 'c InterpretedItem = "'c ParticleQueueItem" +
  result' :: "thrown + InterpreterResult"

text \<open>
  Modelled from the spec: the particle context of a service call (the type is declared
  in \<open>jsServiceHost/interfaces.js\<close>, which is not among the sources):
  \<open>{particleId, initPeerId, timestamp, ttl, signature, tetraplets}\<close>.
\<close>

record ParticleContext =
  particleId :: string
  initPeerId_ctx :: PeerIdB58
  timestamp_ctx :: nat
  ttl_ctx :: nat
  signature_ctx :: bytes
  tetraplets_ctx :: json

text \<open>
  Modelled from the spec: \<open>getParticleContext(particle, tetraplets)\<close> of
  \<open>jsServiceHost/serviceUtils.js\<close>, which is not among the sources, fills the context
  from the particle and the tetraplets.
\<close>

definition getParticleContext :: "Particle \<Rightarrow> json \<Rightarrow> ParticleContext" where
  "getParticleContext p t =
     \<lparr>particleId = id' p, initPeerId_ctx = initPeerId p, timestamp_ctx = timestamp p,
      ttl_ctx = ttl p, signature_ctx = signature p, tetraplets_ctx = t\<rparr>"

record CallServiceData =
  fnName :: string
  args :: "json list"
  serviceId :: string
  tetraplets :: json
  particleContext :: ParticleContext

section \<open>The hosts around the engine\<close>

text \<open>
  \<open>IMarineHost\<close> and \<open>IConnection\<close> are interfaces whose implementations run outside
  the engine (a WASM runtime, the network). Each field is the answer of the method of
  that name: a value, or the value thrown.
\<close>

record IMarineHost =
  marineHost_start :: "thrown + unit"
  marineHost_stop :: "thrown + unit"
  marineHost_createService :: "bytes \<Rightarrow> string \<Rightarrow> thrown + unit"
  marineHost_removeService :: "string \<Rightarrow> thrown + unit"
  marineHost_hasService :: "string \<Rightarrow> thrown + bool"
  marineHost_callService :: "string \<Rightarrow> string \<Rightarrow> json list \<Rightarrow> thrown + json"

record IConnection =
  connection_start :: "thrown + unit"
  connection_stop :: "thrown + unit"
  connection_supportsRelay :: bool
  connection_getRelayPeerId :: PeerIdB58
  connection_sendParticle :: "PeerIdB58 list \<Rightarrow> Particle \<Rightarrow> thrown + unit"

text \<open>
  Modelled from the spec: the registry of the JS service host (\<open>IJsServiceHost\<close>; its
  implementation is not among the sources). Two maps, \<open>globalHandlers: (serviceId,
  fnName) -> handler\<close> and \<open>particleHandlers: particleId -> (serviceId, fnName) ->
  handler\<close>, kept here as association lists. Handlers are closures of type \<open>'h\<close>.
\<close>

record 'h JsServiceHost =
  globalHandlers :: "((string \<times> string) \<times> 'h) list"
  particleHandlers :: "(string \<times> ((string \<times> string) \<times> 'h) list) list"

text \<open>Storing under a key of an association list replaces what the key had.\<close>

definition set_key :: "'k \<Rightarrow> 'v \<Rightarrow> ('k \<times> 'v) list \<Rightarrow> ('k \<times> 'v) list" where
  "set_key k v kvs = filter (\<lambda>kv. fst kv \<noteq> k) kvs @ [(k, v)]"

text \<open>
  Modelled from the spec: \<open>registerGlobalHandler(serviceId, fnName, handler)\<close> of the JS
  service host stores the handler in \<open>globalHandlers\<close>.
\<close>

definition registerGlobalHandler ::
  "string \<Rightarrow> string \<Rightarrow> 'h \<Rightarrow> 'h JsServiceHost \<Rightarrow> 'h JsServiceHost" where
  "registerGlobalHandler sid fn h host =
     host\<lparr>globalHandlers := set_key (sid, fn) h (globalHandlers host)\<rparr>"

text \<open>
  Modelled from the spec: the handlers of one particle, \<open>particleHandlers[particleId]\<close>,
  none when the particle has no entry.
\<close>

definition scope_of :: "'h JsServiceHost \<Rightarrow> string \<Rightarrow> ((string \<times> string) \<times> 'h) list" where
  "scope_of host pid = (case map_of (particleHandlers host) pid of None \<Rightarrow> [] | Some hs \<Rightarrow> hs)"

text \<open>
  Modelled from the spec: \<open>registerParticleScopeHandler(particleId, serviceId, fnName,
  handler)\<close> of the JS service host stores the handler in the scope of the particle.
\<close>

definition registerParticleScopeHandler ::
  "string \<Rightarrow> string \<Rightarrow> string \<Rightarrow> 'h \<Rightarrow> 'h JsServiceHost \<Rightarrow> 'h JsServiceHost" where
  "registerParticleScopeHandler pid sid fn h host =
     host\<lparr>particleHandlers :=
       set_key pid (set_key (sid, fn) h (scope_of host pid)) (particleHandlers host)\<rparr>"

text \<open>
  Modelled from the spec: \<open>removeParticleScopeHandlers(particleId)\<close> of the JS service
  host removes the per-particle handlers of that particle (the entry is dropped).
\<close>

definition removeParticleScopeHandlers :: "string \<Rightarrow> 'h JsServiceHost \<Rightarrow> 'h JsServiceHost" where
  "removeParticleScopeHandlers pid host =
     host\<lparr>particleHandlers := filter (\<lambda>kv. fst kv \<noteq> pid) (particleHandlers host)\<rparr>"

text \<open>
  Modelled from the spec: the handler registered in the scope of a particle for a
  service id and a function name, if any.
\<close>

definition particleHandler :: "'h JsServiceHost \<Rightarrow> string \<Rightarrow> string \<Rightarrow> string \<Rightarrow> 'h option" where
  "particleHandler host pid sid fn = map_of (scope_of host pid) (sid, fn)"

text \<open>
  Modelled from the spec: \<open>hasService(serviceId)\<close> of the JS service host checks if any
  function is registered under the service id, in either map.
\<close>

definition hasService :: "'h JsServiceHost \<Rightarrow> string \<Rightarrow> bool" where
  "hasService host sid =
     (sid \<in> set (map (fst \<circ> fst) (globalHandlers host))
      \<or> sid \<in> set (map (fst \<circ> fst) (concat (map snd (particleHandlers host)))))"

text \<open>
  A promise that the dispatch stage has started is resumed later by the event loop, in
  an order the stage does not choose: a tick resumes the send, or the call request at a
  position of \<open>item.result.callRequests\<close>.
\<close>

datatype tick = ResumeSend | ResumeCallRequest nat

text \<open>
  What lies outside the peer when one of its methods runs: the two hosts above, the
  answer of \<open>jsServiceHost.callService(req)\<close>, which runs handler closures (\<open>None\<close> is
  \<open>null\<close>: no handler was found), and the order in which the event loop resumes what
  the dispatch stage has started.
\<close>

record world =
  marineHost :: IMarineHost
  connection :: IConnection
  jsServiceHost_callService :: "CallServiceData \<Rightarrow> thrown + CallServiceResult option"
  resume_order :: "tick list"

section \<open>FluencePeer (src/packages/core/js-client/src/api.ts)\<close>

record PeerConfig =
  defaultTtlMs :: nat
  debug_printParticleId :: bool

definition DEFAULT_CONFIG :: PeerConfig where
  "DEFAULT_CONFIG = \<lparr>defaultTtlMs = 7000, debug_printParticleId = False\<rparr>"

record KeyPair =
  getPeerId :: PeerIdB58
  toEd25519PrivateKey :: bytes

text \<open>
  What the peer does to the outside, in the order it does it. The peer's \<open>trace\<close> keeps
  each event with the value \<open>isInitialized\<close> had when the event happened.
\<close>

datatype 'c event =
    MarineHostStart
  | ParticleSourceSubscribe
  | ConnectionStart
  | MarineHostCreateService bytes string
  | MarineHostHasService string
  | MarineHostCallService string string "json list"
  | JsServiceHostCallService CallServiceData
  | ConsoleLog "string list"
  | OnErrorCall "'c callback" thrown
  | ConnectionSendParticle "PeerIdB58 list" Particle

record ('c, 'h) FluencePeer =
  config :: PeerConfig
  keyPair :: KeyPair
  jsServiceHost :: "'h JsServiceHost"
  isInitialized :: bool
  printParticleId :: bool
  incomingParticles :: "'c ParticleQueueItem list"
  timeouts :: "('c ParticleQueueItem \<times> int) list"
  particleSourceSubscription :: bool
  trace :: "('c event \<times> bool) list"

definition emit :: "'c event \<Rightarrow> ('c, 'h) FluencePeer \<Rightarrow> ('c, 'h) FluencePeer" where
  "emit ev p = p\<lparr>trace := trace p @ [(ev, isInitialized p)]\<rparr>"

text \<open>\<open>this._incomingParticles.next(item)\<close>.\<close>

definition incomingParticles_next ::
  "'c ParticleQueueItem \<Rightarrow> ('c, 'h) FluencePeer \<Rightarrow> ('c, 'h) FluencePeer" where
  "incomingParticles_next item p = p\<lparr>incomingParticles := incomingParticles p @ [item]\<rparr>"

text \<open>
  The subscriber that \<open>_startParticleProcessing\<close> gives to \<open>connection.particleSource\<close>:
  every arriving particle is enqueued with no-op callbacks.
\<close>

definition particleSource_next :: "Particle \<Rightarrow> ('c, 'h) FluencePeer \<Rightarrow> ('c, 'h) FluencePeer" where
  "particleSource_next p peer =
     incomingParticles_next
       \<lparr>particle = p, callResults = [], onSuccess = NoOp, onError = NoOp\<rparr> peer"

text \<open>
  \<open>_startParticleProcessing\<close>: the subscription to \<open>connection.particleSource\<close>. (The
  pipeline it builds on \<open>_incomingParticles\<close> is modelled stage by stage below.)
\<close>

definition startParticleProcessing :: "('c, 'h) FluencePeer \<Rightarrow> ('c, 'h) FluencePeer" where
  "startParticleProcessing p = emit ParticleSourceSubscribe (p\<lparr>particleSourceSubscription := True\<rparr>)"

text \<open>
  \<open>start()\<close>. A rejected \<open>await\<close> ends the method with the value thrown, and with the
  peer as the statements before it left it.
\<close>

definition start :: "world \<Rightarrow> ('c, 'h) FluencePeer \<Rightarrow> (thrown + unit) \<times> ('c, 'h) FluencePeer" where
  "start w p =
     (let p1 = (if debug_printParticleId (config p) then p\<lparr>printParticleId := True\<rparr> else p);
          p2 = emit MarineHostStart p1
      in case marineHost_start (marineHost w) of
           Inl e \<Rightarrow> (Inl e, p2)
         | Inr u \<Rightarrow>
             (let p3 = startParticleProcessing p2;
                  p4 = p3\<lparr>isInitialized := True\<rparr>;
                  p5 = emit ConnectionStart p4
              in case connection_start (connection w) of
                   Inl e \<Rightarrow> (Inl e, p5)
                 | Inr u \<Rightarrow> (Inr (), p5)))"

text \<open>\<open>registerMarineService(wasm, serviceId)\<close>.\<close>

definition registerMarineService ::
  "world \<Rightarrow> ('c, 'h) FluencePeer \<Rightarrow> bytes \<Rightarrow> string \<Rightarrow> (thrown + unit) \<times> ('c, 'h) FluencePeer" where
  "registerMarineService w p wasm sid =
     (if hasService (jsServiceHost p) sid
      then (Inl (Err Error (''Service with '' @ squote @ sid @ squote @ '' id already exists'')), p)
      else (marineHost_createService (marineHost w) wasm sid,
            emit (MarineHostCreateService wasm sid) p))"

text \<open>
  \<open>internals.parseAst(air)\<close>. When the peer is not initialized the source evaluates
  \<open>new Error("Can't use avm: peer is not initialized")\<close> and drops the object: there is
  no \<open>throw\<close>. The model binds it to \<open>unthrown\<close>, which nothing reads.
\<close>

record AstResult =
  success' :: bool
  data_ast :: json

definition parseAst ::
  "externals \<Rightarrow> world \<Rightarrow> ('c, 'h) FluencePeer \<Rightarrow> string
     \<Rightarrow> (thrown + AstResult) \<times> ('c, 'h) FluencePeer" where
  "parseAst ext w p air =
     (let unthrown = (if \<not> isInitialized p
                      then Some (Err Error ''Can't use avm: peer is not initialized'')
                      else None);
          p1 = emit (MarineHostCallService ''avm'' ''ast'' [JStr air]) p
      in case marineHost_callService (marineHost w) ''avm'' ''ast'' [JStr air] of
           Inl e \<Rightarrow> (Inl e, p1)
         | Inr res \<Rightarrow>
             (case res of
                JStr str \<Rightarrow>
                  (if startsWith str ''error''
                   then (Inr \<lparr>success' = False, data_ast = res\<rparr>, p1)
                   else (case JSON_parse ext str of
                           Inl err \<Rightarrow>
                             (Inl (Err Error (''Failed to call avm. Result: '' @ str
                                     @ ''. Error: '' @ getErrorMessage ext err)), p1)
                         | Inr v \<Rightarrow> (Inr \<lparr>success' = True, data_ast = v\<rparr>, p1)))
              | other \<Rightarrow>
                  (Inl (Err Error (''Call to avm:ast expected to return string. Actual return: ''
                          @ JSON_stringify ext res)), p1)))"

text \<open>\<open>internals.initiateParticle(particle, onSuccess, onError)\<close>.\<close>

definition initiateParticle ::
  "('c, 'h) FluencePeer \<Rightarrow> Particle \<Rightarrow> 'c callback \<Rightarrow> 'c callback
     \<Rightarrow> (thrown + unit) \<times> ('c, 'h) FluencePeer" where
  "initiateParticle p part onSucc onErr =
     (if \<not> isInitialized p
      then (Inl (Err Error ''Cannot initiate new particle: peer is not initialized''), p)
      else (let p1 = (if printParticleId p
                      then emit (ConsoleLog [''Particle id: '', id' part]) p else p)
            in (Inr (),
                incomingParticles_next
                  \<lparr>particle = part, callResults = [], onSuccess = onSucc, onError = onErr\<rparr> p1)))"

section \<open>The particle pipeline (\<open>_startParticleProcessing\<close>)\<close>

text \<open>
  \<open>serializeAvmArgs\<close> and \<open>deserializeAvmResult\<close> belong to \<open>@fluencelabs/avm\<close>: they
  are parameters. The run parameters are, in order, \<open>initPeerId\<close>, \<open>currentPeerId\<close>,
  \<open>timestamp\<close>, \<open>ttl\<close>, \<open>keyFormat\<close>, \<open>particleId\<close> and \<open>secretKeyBytes\<close>.
\<close>

datatype KeyPairFormat = Ed25519

datatype RunParameters =
  RunParameters PeerIdB58 PeerIdB58 nat nat KeyPairFormat string bytes

record AvmLibrary =
  serializeAvmArgs ::
    "RunParameters \<Rightarrow> string \<Rightarrow> bytes \<Rightarrow> bytes \<Rightarrow> CallResultsArray \<Rightarrow> json list"
  deserializeAvmResult :: "json \<Rightarrow> thrown + InterpreterResult"

text \<open>\<open>e instanceof Error ? e : new Error(String(e))\<close>.\<close>

fun toError :: "thrown \<Rightarrow> thrown" where
  "toError (Err c m) = Err c m"
| "toError (NonError v) = Err Error v"

text \<open>\<open>_expireParticle(item)\<close>, for a queue item with or without a \<open>result\<close>.\<close>

definition expireParticle ::
  "('c, 'h) FluencePeer \<Rightarrow> ('c, 'x) ParticleQueueItem_scheme \<Rightarrow> ('c, 'h) FluencePeer" where
  "expireParticle p item =
     (let particleId = id' (particle item);
          p1 = p\<lparr>jsServiceHost := removeParticleScopeHandlers particleId (jsServiceHost p)\<rparr>
      in emit (OnErrorCall (onError item)
                 (Err ExpirationError
                    (''Particle expired after ttl of '' @ show_nat (ttl (particle item))
                       @ ''ms (particle id: '' @ id' (particle item) @ '')''))) p1)"

text \<open>
  \<open>filterExpiredParticles(onParticleExpiration)\<close>: a \<open>tap\<close> and then a \<open>filter\<close>, each
  asking \<open>hasExpired\<close>, so each reading the clock: \<open>now_tap\<close> and \<open>now_filter\<close>. The
  result is the item when it passes, \<open>None\<close> when it is dropped.
\<close>

definition filterExpiredParticles ::
  "(('c, 'h) FluencePeer \<Rightarrow> ('c, 'x) ParticleQueueItem_scheme \<Rightarrow> ('c, 'h) FluencePeer)
     \<Rightarrow> nat \<Rightarrow> nat \<Rightarrow> ('c, 'h) FluencePeer \<Rightarrow> ('c, 'x) ParticleQueueItem_scheme
     \<Rightarrow> ('c, 'x) ParticleQueueItem_scheme option \<times> ('c, 'h) FluencePeer" where
  "filterExpiredParticles onParticleExpiration now_tap now_filter p item =
     (let p1 = (if hasExpired now_tap (particle item) then onParticleExpiration p item else p)
      in (if \<not> hasExpired now_filter (particle item) then Some item else None, p1))"

text \<open>
  The state of one signature group (the closure of the \<open>mergeMap\<close> over \<open>group$\<close>):
  \<open>prevData\<close>, at first \<open>Buffer.from([])\<close>, and \<open>firstRun\<close>.
\<close>

record GroupState =
  prevData :: bytes
  firstRun :: bool

definition new_group :: GroupState where
  "new_group = \<lparr>prevData = [], firstRun = True\<rparr>"

text \<open>
  The body of the group's \<open>concatMap\<close>: arm the group's timer on the first run, stop if
  the peer was stopped, else call the interpreter and swap \<open>prevData\<close>. \<open>now\<close> is the
  clock read by \<open>getActualTTL\<close>. The answer is \<open>None\<close> for the source's \<open>null\<close>.
\<close>

definition invokeInterpreter ::
  "AvmLibrary \<Rightarrow> world \<Rightarrow> nat \<Rightarrow> ('c, 'h) FluencePeer \<Rightarrow> GroupState \<Rightarrow> 'c ParticleQueueItem
     \<Rightarrow> 'c InterpretedItem option \<times> ('c, 'h) FluencePeer \<times> GroupState" where
  "invokeInterpreter avm w now p g item =
     (let p1 = (if firstRun g
                then p\<lparr>timeouts := timeouts p @ [(item, getActualTTL now (particle item))]\<rparr>
                else p);
          g1 = (if firstRun g then g\<lparr>firstRun := False\<rparr> else g)
      in if \<not> isInitialized p1 then (None, p1, g1)
         else
           (let args = serializeAvmArgs avm
                  (RunParameters (initPeerId (particle item)) (getPeerId (keyPair p1))
                     (timestamp (particle item)) (ttl (particle item)) Ed25519
                     (id' (particle item)) (toEd25519PrivateKey (keyPair p1)))
                  (script (particle item)) (prevData g1) (data (particle item))
                  (callResults item);
                p2 = emit (MarineHostCallService ''avm'' ''invoke'' args) p1;
                avmCallResult =
                  (case marineHost_callService (marineHost w) ''avm'' ''invoke'' args of
                     Inl e \<Rightarrow> Inl (toError e)
                   | Inr res \<Rightarrow>
                       (case deserializeAvmResult avm res of
                          Inl e \<Rightarrow> Inl (toError e)
                        | Inr r \<Rightarrow> Inr r));
                g2 = (case avmCallResult of
                        Inl e \<Rightarrow> g1
                      | Inr r \<Rightarrow> if retCode' r = 0 then g1\<lparr>prevData := data' r\<rparr> else g1)
            in (Some \<lparr>particle = particle item, callResults = callResults item,
                      onSuccess = onSuccess item, onError = onError item,
                      result' = avmCallResult\<rparr>, p2, g2)))"

text \<open>
  \<open>_execSingleCallRequest(req)\<close>. The answer is the value the promise resolves with, or
  the value it rejects with.
\<close>

definition execSingleCallRequest ::
  "externals \<Rightarrow> world \<Rightarrow> ('c, 'h) FluencePeer \<Rightarrow> CallServiceData
     \<Rightarrow> (thrown + CallServiceResult) \<times> ('c, 'h) FluencePeer" where
  "execSingleCallRequest ext w p req =
     (let p1 = emit (MarineHostHasService (serviceId req)) p
      in case marineHost_hasService (marineHost w) (serviceId req) of
           Inl e \<Rightarrow> (Inl e, p1)
         | Inr has \<Rightarrow>
             if has
             then (let p2 = emit (MarineHostCallService (serviceId req) (fnName req) (args req)) p1
                   in case marineHost_callService (marineHost w)
                             (serviceId req) (fnName req) (args req) of
                        Inl e \<Rightarrow> (Inl e, p2)
                      | Inr res \<Rightarrow> (Inr \<lparr>retCode = success, result = res\<rparr>, p2))
             else (let p2 = emit (JsServiceHostCallService req) p1
                   in case jsServiceHost_callService w req of
                        Inl e \<Rightarrow> (Inl e, p2)
                      | Inr None \<Rightarrow>
                          (Inr \<lparr>retCode = error,
                                result = JStr (''No service found for service call: serviceId=''
                                  @ squote @ serviceId req @ squote @ '', fnName='' @ squote
                                  @ fnName req @ squote @ '' args='' @ squote
                                  @ jsonify ext (JArr (args req)) @ squote)\<rparr>, p2)
                      | Inr (Some res) \<Rightarrow> (Inr res, p2)))"

text \<open>
  The \<open>.catch\<close> that the dispatch stage puts on \<open>_execSingleCallRequest(req)\<close>: the
  rejection becomes a result with \<open>retCode: ResultCodes.error\<close>.
\<close>

definition catchServiceError :: "externals \<Rightarrow> CallServiceData \<Rightarrow> thrown \<Rightarrow> CallServiceResult" where
  "catchServiceError ext req err =
     (if instanceofServiceError err
      then \<lparr>retCode = error, result = JStr (message err)\<rparr>
      else \<lparr>retCode = error,
            result = JStr (''Service call failed. fnName='' @ dquote @ fnName req @ dquote
              @ '' serviceId='' @ dquote @ serviceId req @ dquote
              @ '' error: '' @ getErrorMessage ext err)\<rparr>)"

definition execCallRequest ::
  "externals \<Rightarrow> world \<Rightarrow> ('c, 'h) FluencePeer \<Rightarrow> CallServiceData
     \<Rightarrow> CallServiceResult \<times> ('c, 'h) FluencePeer" where
  "execCallRequest ext w p req =
     (case execSingleCallRequest ext w p req of
        (Inl err, p1) \<Rightarrow> (catchServiceError ext req err, p1)
      | (Inr res, p1) \<Rightarrow> (res, p1))"

text \<open>
  The request built from a call request \<open>cr\<close> of the interpreter:
  \<open>{fnName: cr.functionName, args: cr.arguments, serviceId: cr.serviceId, tetraplets:
  cr.tetraplets, particleContext: getParticleContext(item.particle, cr.tetraplets)}\<close>.
\<close>

definition callServiceData :: "Particle \<Rightarrow> CallRequest \<Rightarrow> CallServiceData" where
  "callServiceData part cr =
     \<lparr>fnName = functionName cr, args = arguments cr, serviceId = serviceId' cr,
      tetraplets = tetraplets' cr,
      particleContext = getParticleContext part (tetraplets' cr)\<rparr>"

text \<open>
  One call request taken alone, from its start to its end: the round of the \<open>for\<close>
  loop over \<open>item.result.callRequests\<close> that starts it, and the \<open>.then\<close> that follows
  the call: nothing more for \<open>callbackSrv.response\<close>, else the result goes back into
  the queue. \<open>{...item, particle, callResults}\<close> keeps the callbacks of \<open>item\<close>.
\<close>

definition handleCallRequest ::
  "externals \<Rightarrow> world \<Rightarrow> 'c InterpretedItem \<Rightarrow> ('c, 'h) FluencePeer \<Rightarrow> nat \<times> CallRequest
     \<Rightarrow> ('c, 'h) FluencePeer" where
  "handleCallRequest ext w item p kcr =
     (let key = fst kcr; cr = snd kcr;
          req = callServiceData (particle item) cr
      in case execCallRequest ext w p req of
           (res, p1) \<Rightarrow>
             if serviceId req = ''callbackSrv'' \<and> fnName req = ''response''
             then p1
             else (let serviceResult = \<lparr>retCode = retCode res, result = jsonify ext (result res)\<rparr>;
                       newParticle = cloneWithNewData (particle item) []
                   in incomingParticles_next
                        \<lparr>particle = newParticle, callResults = [(key, serviceResult)],
                         onSuccess = onSuccess item, onError = onError item\<rparr> p1))"

text \<open>
  The send taken alone, from its start to its end: the branch that sends the particle
  further, with its \<open>.catch\<close>.
\<close>

definition sendFurther ::
  "externals \<Rightarrow> world \<Rightarrow> 'c InterpretedItem \<Rightarrow> InterpreterResult \<Rightarrow> ('c, 'h) FluencePeer
     \<Rightarrow> ('c, 'h) FluencePeer" where
  "sendFurther ext w item r p =
     (let newParticle = cloneWithNewData (particle item) (data' r);
          p1 = emit (ConnectionSendParticle (nextPeerPks r) newParticle) p
      in case connection_sendParticle (connection w) (nextPeerPks r) newParticle of
           Inr u \<Rightarrow> p1
         | Inl e \<Rightarrow>
             emit (OnErrorCall (onError item)
                     (Err SendError
                        (''Could not send particle: (particle id: '' @ id' (particle item)
                           @ '', message: '' @ getErrorMessage ext e @ '')''))) p1)"

text \<open>
  What the dispatch stage has started and not yet finished. A call request waits for
  \<open>marineHost.hasService\<close>, then for the \<open>callService\<close> of Marine (\<open>True\<close>) or of the JS
  service host (\<open>False\<close>), then, its result known, for the \<open>.then\<close> that puts it back
  into the queue.
\<close>

datatype stage = AwaitHasService | AwaitCallService bool | AwaitThen CallServiceResult | Finished

record CallTask =
  task_key :: nat
  task_req :: CallServiceData
  task_stage :: stage

record ('c, 'h) DispatchState =
  ds_peer :: "('c, 'h) FluencePeer"
  sendPending :: bool
  tasks :: "CallTask list"

text \<open>
  The start of the send: \<open>this.connection.sendParticle(item.result.nextPeerPks,
  newParticle)\<close> is called and its promise is left pending.
\<close>

definition startSend ::
  "'c InterpretedItem \<Rightarrow> InterpreterResult \<Rightarrow> ('c, 'h) DispatchState \<Rightarrow> ('c, 'h) DispatchState" where
  "startSend item r st =
     (let newParticle = cloneWithNewData (particle item) (data' r)
      in st\<lparr>ds_peer := emit (ConnectionSendParticle (nextPeerPks r) newParticle) (ds_peer st),
            sendPending := True\<rparr>)"

text \<open>
  One round of the \<open>for\<close> loop over \<open>item.result.callRequests\<close>:
  \<open>_execSingleCallRequest(req)\<close> runs up to its first \<open>await\<close>, that is, it calls
  \<open>marineHost.hasService(req.serviceId)\<close>, and the loop goes on.
\<close>

definition startCallRequest ::
  "'c InterpretedItem \<Rightarrow> ('c, 'h) DispatchState \<Rightarrow> nat \<times> CallRequest \<Rightarrow> ('c, 'h) DispatchState" where
  "startCallRequest item st kcr =
     (let key = fst kcr; cr = snd kcr;
          req = callServiceData (particle item) cr
      in st\<lparr>ds_peer := emit (MarineHostHasService (serviceId req)) (ds_peer st),
            tasks := tasks st @ [\<lparr>task_key = key, task_req = req, task_stage = AwaitHasService\<rparr>]\<rparr>)"

text \<open>The send is resumed: its \<open>.then\<close> only logs, its \<open>.catch\<close> calls \<open>item.onError\<close>.\<close>

definition resumeSend ::
  "externals \<Rightarrow> world \<Rightarrow> 'c InterpretedItem \<Rightarrow> InterpreterResult \<Rightarrow> ('c, 'h) DispatchState
     \<Rightarrow> ('c, 'h) DispatchState" where
  "resumeSend ext w item r st =
     (if \<not> sendPending st then st
      else (let newParticle = cloneWithNewData (particle item) (data' r)
            in case connection_sendParticle (connection w) (nextPeerPks r) newParticle of
                 Inr u \<Rightarrow> st\<lparr>sendPending := False\<rparr>
               | Inl e \<Rightarrow>
                   st\<lparr>ds_peer :=
                        emit (OnErrorCall (onError item)
                                (Err SendError
                                   (''Could not send particle: (particle id: ''
                                      @ id' (particle item) @ '', message: ''
                                      @ getErrorMessage ext e @ '')''))) (ds_peer st),
                      sendPending := False\<rparr>))"

text \<open>
  A call request is resumed and runs up to its next \<open>await\<close>, or to its end. What is
  thrown on the way goes through the \<open>.catch\<close> of the dispatch stage.
\<close>

definition resumeTask ::
  "externals \<Rightarrow> world \<Rightarrow> 'c InterpretedItem \<Rightarrow> ('c, 'h) FluencePeer \<Rightarrow> CallTask
     \<Rightarrow> ('c, 'h) FluencePeer \<times> CallTask" where
  "resumeTask ext w item p t =
     (let req = task_req t
      in case task_stage t of
           AwaitHasService \<Rightarrow>
             (case marineHost_hasService (marineHost w) (serviceId req) of
                Inl e \<Rightarrow> (p, t\<lparr>task_stage := AwaitThen (catchServiceError ext req e)\<rparr>)
              | Inr has \<Rightarrow>
                  if has
                  then (emit (MarineHostCallService (serviceId req) (fnName req) (args req)) p,
                        t\<lparr>task_stage := AwaitCallService True\<rparr>)
                  else (emit (JsServiceHostCallService req) p,
                        t\<lparr>task_stage := AwaitCallService False\<rparr>))
         | AwaitCallService marine \<Rightarrow>
             if marine
             then (case marineHost_callService (marineHost w)
                          (serviceId req) (fnName req) (args req) of
                     Inl e \<Rightarrow> (p, t\<lparr>task_stage := AwaitThen (catchServiceError ext req e)\<rparr>)
                   | Inr res \<Rightarrow>
                       (p, t\<lparr>task_stage := AwaitThen \<lparr>retCode = success, result = res\<rparr>\<rparr>))
             else (case jsServiceHost_callService w req of
                     Inl e \<Rightarrow> (p, t\<lparr>task_stage := AwaitThen (catchServiceError ext req e)\<rparr>)
                   | Inr None \<Rightarrow>
                       (p, t\<lparr>task_stage := AwaitThen
                              \<lparr>retCode = error,
                               result = JStr (''No service found for service call: serviceId=''
                                 @ squote @ serviceId req @ squote @ '', fnName='' @ squote
                                 @ fnName req @ squote @ '' args='' @ squote
                                 @ jsonify ext (JArr (args req)) @ squote)\<rparr>\<rparr>)
                   | Inr (Some res) \<Rightarrow> (p, t\<lparr>task_stage := AwaitThen res\<rparr>))
         | AwaitThen res \<Rightarrow>
             if serviceId req = ''callbackSrv'' \<and> fnName req = ''response''
             then (p, t\<lparr>task_stage := Finished\<rparr>)
             else (let serviceResult = \<lparr>retCode = retCode res, result = jsonify ext (result res)\<rparr>;
                       newParticle = cloneWithNewData (particle item) []
                   in (incomingParticles_next
                         \<lparr>particle = newParticle, callResults = [(task_key t, serviceResult)],
                          onSuccess = onSuccess item, onError = onError item\<rparr> p,
                       t\<lparr>task_stage := Finished\<rparr>))
         | Finished \<Rightarrow> (p, t))"

text \<open>One tick of the event loop. A tick for a call request that was not started does nothing.\<close>

fun resume ::
  "externals \<Rightarrow> world \<Rightarrow> 'c InterpretedItem \<Rightarrow> InterpreterResult \<Rightarrow> ('c, 'h) DispatchState \<Rightarrow> tick
     \<Rightarrow> ('c, 'h) DispatchState" where
  "resume ext w item r st ResumeSend = resumeSend ext w item r st"
| "resume ext w item r st (ResumeCallRequest k) =
     (if k < length (tasks st)
      then (case resumeTask ext w item (ds_peer st) (tasks st ! k) of
              (p1, t1) \<Rightarrow> st\<lparr>ds_peer := p1, tasks := (tasks st)[k := t1]\<rparr>)
      else st)"

text \<open>
  The body of the last \<open>mergeMap\<close>: the dispatch of an interpreted item. For a result
  with \<open>retCode\<close> 0 the stage starts the send, if any, and then every call request, one
  after the other; none of them is awaited before the next is started. What was
  started is then resumed in the order of the event loop, \<open>resume_order\<close>; a promise that
  the order never resumes stays pending.
\<close>

definition dispatch_start ::
  "('c, 'h) FluencePeer \<Rightarrow> 'c InterpretedItem \<Rightarrow> InterpreterResult \<Rightarrow> ('c, 'h) DispatchState" where
  "dispatch_start p item r =
     (let st0 = \<lparr>ds_peer = p, sendPending = False, tasks = []\<rparr>;
          st1 = (if length (nextPeerPks r) > 0 then startSend item r st0 else st0)
      in if length (callRequests r) > 0
         then foldl (startCallRequest item) st1 (callRequests r)
         else st1)"

definition dispatch ::
  "externals \<Rightarrow> world \<Rightarrow> ('c, 'h) FluencePeer \<Rightarrow> 'c InterpretedItem \<Rightarrow> ('c, 'h) FluencePeer" where
  "dispatch ext w p item =
     (if \<not> isInitialized p then p
      else case result' item of
             Inl e \<Rightarrow>
               emit (OnErrorCall (onError item)
                       (Err InterpreterError
                          (''Script interpretation failed: '' @ message e
                             @ ''  (particle id: '' @ id' (particle item) @ '')''))) p
           | Inr r \<Rightarrow>
               if retCode' r \<noteq> 0
               then emit (OnErrorCall (onError item)
                            (Err InterpreterError
                               (''Script interpretation failed: '' @ errorMessage r
                                  @ ''  (particle id: '' @ id' (particle item) @ '')''))) p
               else ds_peer (foldl (resume ext w item r) (dispatch_start p item r) (resume_order w)))"

text \<open>
  What the dispatch stage leaves in the queue, whatever the order of the event loop. A
  call request is a response when it targets \<open>callbackSrv\<close> / \<open>response\<close>;
  \<open>requeued\<close> is the queue item that the \<open>.then\<close> of a call request builds from its
  result. \<open>stage_ok\<close> says that what a pending call request has learnt so far is what
  the hosts answer, and \<open>dispatch_inv\<close> that the tasks are the call requests of the
  item, in their order, and that the queue has grown by the items of the finished
  requests that are not responses, each once, in the order in which they finished.
  \<open>stage_rank\<close> counts the steps a call request has behind it.
\<close>

definition is_response :: "nat \<times> CallRequest \<Rightarrow> bool" where
  "is_response kcr = (serviceId' (snd kcr) = ''callbackSrv'' \<and> functionName (snd kcr) = ''response'')"

definition requeued ::
  "externals \<Rightarrow> world \<Rightarrow> ('c, 'h) FluencePeer \<Rightarrow> 'c InterpretedItem \<Rightarrow> nat \<times> CallRequest
     \<Rightarrow> 'c ParticleQueueItem" where
  "requeued ext w p item kcr =
     \<lparr>particle = cloneWithNewData (particle item) [],
      callResults =
        [(fst kcr,
          \<lparr>retCode = retCode (fst (execCallRequest ext w p
                          (callServiceData (particle item) (snd kcr)))),
           result = jsonify ext (result (fst (execCallRequest ext w p
                          (callServiceData (particle item) (snd kcr)))))\<rparr>)],
      onSuccess = onSuccess item, onError = onError item\<rparr>"

definition stage_ok :: "externals \<Rightarrow> world \<Rightarrow> ('c, 'h) FluencePeer \<Rightarrow> CallTask \<Rightarrow> bool" where
  "stage_ok ext w p t =
     (case task_stage t of
        AwaitHasService \<Rightarrow> True
      | AwaitCallService b \<Rightarrow> marineHost_hasService (marineHost w) (serviceId (task_req t)) = Inr b
      | AwaitThen res \<Rightarrow> res = fst (execCallRequest ext w p (task_req t))
      | Finished \<Rightarrow> True)"

definition dispatch_inv ::
  "externals \<Rightarrow> world \<Rightarrow> ('c, 'h) FluencePeer \<Rightarrow> 'c InterpretedItem \<Rightarrow> (nat \<times> CallRequest) list
     \<Rightarrow> ('c, 'h) DispatchState \<Rightarrow> bool" where
  "dispatch_inv ext w p item crs st =
     (map task_key (tasks st) = map fst crs
      \<and> map task_req (tasks st) = map (\<lambda>kcr. callServiceData (particle item) (snd kcr)) crs
      \<and> list_all (stage_ok ext w p) (tasks st)
      \<and> (\<exists>ks. distinct ks
            \<and> set ks = {k. k < length crs \<and> task_stage (tasks st ! k) = Finished
                           \<and> \<not> is_response (crs ! k)}
            \<and> incomingParticles (ds_peer st)
                = incomingParticles p @ map (\<lambda>k. requeued ext w p item (crs ! k)) ks))"

fun stage_rank :: "stage \<Rightarrow> nat" where
  "stage_rank AwaitHasService = 0"
| "stage_rank (AwaitCallService b) = 1"
| "stage_rank (AwaitThen res) = 2"
| "stage_rank Finished = 3"

text \<open>
  One item through the stages of the pipeline, in a group whose state is \<open>g\<close>: the
  expiration filter, the interpreter, the second expiration filter, the dispatch. The
  five clock readings are those of the two filters and of \<open>getActualTTL\<close> between them.
\<close>

record Clock =
  now_tap1 :: nat
  now_filter1 :: nat
  now_ttl :: nat
  now_tap2 :: nat
  now_filter2 :: nat

definition process_item ::
  "externals \<Rightarrow> AvmLibrary \<Rightarrow> world \<Rightarrow> Clock \<Rightarrow> ('c, 'h) FluencePeer \<Rightarrow> GroupState
     \<Rightarrow> 'c ParticleQueueItem \<Rightarrow> ('c, 'h) FluencePeer \<times> GroupState" where
  "process_item ext avm w clock p g item =
     (case filterExpiredParticles expireParticle (now_tap1 clock) (now_filter1 clock) p item of
        (None, p1) \<Rightarrow> (p1, g)
      | (Some item1, p1) \<Rightarrow>
          (case invokeInterpreter avm w (now_ttl clock) p1 g item1 of
             (None, p2, g2) \<Rightarrow> (p2, g2)
           | (Some interpreted, p2, g2) \<Rightarrow>
               (case filterExpiredParticles expireParticle
                       (now_tap2 clock) (now_filter2 clock) p2 interpreted of
                  (None, p3) \<Rightarrow> (p3, g2)
                | (Some item2, p3) \<Rightarrow> (dispatch ext w p3 item2, g2))))"

text \<open>
  \<open>groupBy\<close> and the \<open>mergeMap\<close> over the groups: the key of an item is
  \<open>fromUint8Array(item.particle.signature)\<close>, the base64 text of the signature, so one
  group per signature; a group starts with \<open>new_group\<close> when its first item arrives.
  \<open>pipeline_item\<close> takes one item through the pipeline in the state of its group.
\<close>

definition group_key :: "('c, 'x) ParticleQueueItem_scheme \<Rightarrow> bytes" where
  "group_key item = signature (particle item)"

definition group_state :: "(bytes \<times> GroupState) list \<Rightarrow> bytes \<Rightarrow> GroupState" where
  "group_state groups k = (case map_of groups k of None \<Rightarrow> new_group | Some g \<Rightarrow> g)"

definition pipeline_item ::
  "externals \<Rightarrow> AvmLibrary \<Rightarrow> world \<Rightarrow> Clock \<Rightarrow> ('c, 'h) FluencePeer \<times> (bytes \<times> GroupState) list
     \<Rightarrow> 'c ParticleQueueItem \<Rightarrow> ('c, 'h) FluencePeer \<times> (bytes \<times> GroupState) list" where
  "pipeline_item ext avm w clock state item =
     (case process_item ext avm w clock (fst state)
             (group_state (snd state) (group_key item)) item of
        (p1, g1) \<Rightarrow> (p1, set_key (group_key item) g1 (snd state)))"

text \<open>
  The items of one signature group, taken up one after the other by \<open>concatMap\<close>. Each
  comes with the value of \<open>isInitialized\<close> at that moment (\<open>start\<close> and \<open>stop\<close> run in
  between), the world and the clock. The answer lists the invocations of the
  interpreter: for each the world and the item, the arguments that
  \<open>marineHost.callService("avm", "invoke", args)\<close> was called with, read from the last
  call that the trace of the peer records, and what came back.
\<close>

record 'c Invocation =
  inv_world :: world
  inv_item :: "'c ParticleQueueItem"
  inv_args :: "json list"
  inv_result :: "thrown + InterpreterResult"

fun callArgs :: "'c event \<Rightarrow> json list" where
  "callArgs (MarineHostCallService sid fn as) = as"
| "callArgs ev = []"

fun group_run ::
  "AvmLibrary \<Rightarrow> (bool \<times> world \<times> nat \<times> 'c ParticleQueueItem) list \<Rightarrow> ('c, 'h) FluencePeer
     \<Rightarrow> GroupState \<Rightarrow> 'c Invocation list" where
  "group_run avm [] p g = []"
| "group_run avm ((b, w, now, item) # rest) p g =
     (case invokeInterpreter avm w now (p\<lparr>isInitialized := b\<rparr>) g item of
        (None, p1, g1) \<Rightarrow> group_run avm rest p1 g1
      | (Some interpreted, p1, g1) \<Rightarrow>
          \<lparr>inv_world = w, inv_item = item, inv_args = callArgs (fst (last (trace p1))),
           inv_result = result' interpreted\<rparr> # group_run avm rest p1 g1)"

text \<open>
  The critical-section invariant in the spec's words: after an invocation that was given
  \<open>d\<close> as \<open>prevData\<close> and ended with \<open>res\<close>, \<open>prevData\<close> is the returned data if
  the invocation returned and \<open>retCode == 0\<close>, and \<open>d\<close>, untouched, otherwise.
\<close>

definition prevData_after :: "bytes \<Rightarrow> thrown + InterpreterResult \<Rightarrow> bytes" where
  "prevData_after d res = (case res of Inl e \<Rightarrow> d | Inr r \<Rightarrow> if retCode' r = 0 then data' r else d)"

section \<open>callAquaFunction (src/unnamed/part\_002)\<close>

text \<open>
  \<open>internals.createNewParticle(script, ttl = this.config.defaultTtlMs)\<close>.
  \<open>Particle.createNew\<close> is not among the sources: its answer is the parameter
  \<open>createNew\<close>.
\<close>

definition createNewParticle ::
  "(string \<Rightarrow> PeerIdB58 \<Rightarrow> nat \<Rightarrow> KeyPair \<Rightarrow> thrown + Particle) \<Rightarrow> ('c, 'h) FluencePeer
     \<Rightarrow> string \<Rightarrow> nat option \<Rightarrow> thrown + Particle" where
  "createNewParticle createNew p scr ttl_arg =
     createNew scr (getPeerId (keyPair p))
       (case ttl_arg of None \<Rightarrow> defaultTtlMs (config p) | Some t \<Rightarrow> t) (keyPair p)"

text \<open>An argument of an Aqua function: a callback (\<open>typeof argVal === "function"\<close>) or a JSON value.\<close>

datatype 'f ArgValue = FunctionArg 'f | JsonArg json

text \<open>
  Modelled from the spec: what the handlers of the services of
  \<open>compilerSupport/services.js\<close> (not among the sources) do. A handler invokes a user's
  function and returns its result, returns a literal value, resolves the promise with
  its first argument, rejects the promise with an \<open>Error\<close> carrying the message
  supplied by AIR, or returns \<open>connection.getRelayPeerId()\<close>.
\<close>

datatype ('f, 'c) handler =
    InvokeUserFunction 'f
  | ReturnValue json
  | ResolveWithFirstArgument 'c
  | RejectWithError 'c
  | ReturnRelayPeerId

text \<open>
  Modelled from the spec: \<open>ServiceDescription\<close> of \<open>compilerSupport/services.js\<close>: a
  service id, a function name and a handler.
\<close>

record ('f, 'c) ServiceDescription =
  serviceId_sd :: string
  fnName_sd :: string
  handler_sd :: "('f, 'c) handler"

text \<open>
  Modelled from the spec: \<open>userHandlerService(serviceId, name, f)\<close> is the service
  \<open>serviceId.name\<close> that invokes the function and returns its result.
\<close>

definition userHandlerService :: "string \<Rightarrow> string \<Rightarrow> 'f \<Rightarrow> ('f, 'c) ServiceDescription" where
  "userHandlerService sid name f =
     \<lparr>serviceId_sd = sid, fnName_sd = name, handler_sd = InvokeUserFunction f\<rparr>"

text \<open>
  Modelled from the spec: \<open>injectValueService(serviceId, name, v)\<close> is the service
  \<open>serviceId.name\<close> that returns the literal value.
\<close>

definition injectValueService :: "string \<Rightarrow> string \<Rightarrow> json \<Rightarrow> ('f, 'c) ServiceDescription" where
  "injectValueService sid name v =
     \<lparr>serviceId_sd = sid, fnName_sd = name, handler_sd = ReturnValue v\<rparr>"

text \<open>
  Modelled from the spec: \<open>responseService(resolve)\<close> is \<open>callbackSrv.response\<close>, which
  resolves the promise with its first argument.
\<close>

definition responseService :: "'c \<Rightarrow> ('f, 'c) ServiceDescription" where
  "responseService resolve =
     \<lparr>serviceId_sd = ''callbackSrv'', fnName_sd = ''response'',
      handler_sd = ResolveWithFirstArgument resolve\<rparr>"

text \<open>
  Modelled from the spec: \<open>errorHandlingService(reject)\<close> is \<open>errorHandlingSrv.error\<close>,
  which rejects the promise with an \<open>Error\<close> carrying the message supplied by AIR.
\<close>

definition errorHandlingService :: "'c \<Rightarrow> ('f, 'c) ServiceDescription" where
  "errorHandlingService reject =
     \<lparr>serviceId_sd = ''errorHandlingSrv'', fnName_sd = ''error'',
      handler_sd = RejectWithError reject\<rparr>"

text \<open>
  Modelled from the spec: \<open>injectRelayService(peer)\<close> is \<open>getDataSrv.-relay-\<close>, which
  returns \<open>connection.getRelayPeerId()\<close>.
\<close>

definition injectRelayService ::
  "('c, ('f, 'c) handler) FluencePeer \<Rightarrow> ('f, 'c) ServiceDescription" where
  "injectRelayService peer =
     \<lparr>serviceId_sd = ''getDataSrv'', fnName_sd = ''-relay-'', handler_sd = ReturnRelayPeerId\<rparr>"

text \<open>
  Modelled from the spec: \<open>registerParticleScopeService(peer, particle, service)\<close>
  registers the service as a particle-scope handler under the particle's id.
\<close>

definition registerParticleScopeService ::
  "('c, ('f, 'c) handler) FluencePeer \<Rightarrow> Particle \<Rightarrow> ('f, 'c) ServiceDescription
     \<Rightarrow> ('c, ('f, 'c) handler) FluencePeer" where
  "registerParticleScopeService peer part service =
     peer\<lparr>jsServiceHost :=
       registerParticleScopeHandler (id' part) (serviceId_sd service) (fnName_sd service)
         (handler_sd service) (jsServiceHost peer)\<rparr>"

text \<open>
  The promise that \<open>callAquaFunction\<close> returns, as the call leaves it: rejected when
  particle creation fails or the executor throws, else pending until \<open>resolve\<close> or
  \<open>reject\<close> is called.
\<close>

datatype promise = Pending | Rejected thrown

text \<open>
  \<open>callAquaFunction({script, config, peer, args, fireAndForget})\<close>. \<open>resolve\<close> and
  \<open>reject\<close> are the two functions of the new promise; \<open>ttl_arg\<close> is \<open>config.ttl\<close>;
  \<open>args\<close> lists \<open>Object.entries(args)\<close>.
\<close>

definition registerArg ::
  "Particle \<Rightarrow> ('c, ('f, 'c) handler) FluencePeer \<Rightarrow> string \<times> 'f ArgValue
     \<Rightarrow> ('c, ('f, 'c) handler) FluencePeer" where
  "registerArg part peer entry =
     (let name = fst entry; argVal = snd entry;
          service = (case argVal of
                       FunctionArg f \<Rightarrow> userHandlerService ''callbackSrv'' name f
                     | JsonArg v \<Rightarrow> injectValueService ''getDataSrv'' name v)
      in registerParticleScopeService peer part service)"

definition callAquaFunction ::
  "(string \<Rightarrow> PeerIdB58 \<Rightarrow> nat \<Rightarrow> KeyPair \<Rightarrow> thrown + Particle) \<Rightarrow> 'c \<Rightarrow> 'c
     \<Rightarrow> string \<Rightarrow> nat option \<Rightarrow> ('c, ('f, 'c) handler) FluencePeer
     \<Rightarrow> (string \<times> 'f ArgValue) list \<Rightarrow> bool
     \<Rightarrow> promise \<times> ('c, ('f, 'c) handler) FluencePeer" where
  "callAquaFunction createNew resolve reject scr ttl_arg peer args_list fireAndForget =
     (case createNewParticle createNew peer scr ttl_arg of
        Inl e \<Rightarrow> (Rejected e, peer)
      | Inr part \<Rightarrow>
          (let p1 = foldl (registerArg part) peer args_list;
               p2 = (if \<not> fireAndForget
                     then registerParticleScopeService p1 part (responseService resolve)
                     else p1);
               p3 = registerParticleScopeService p2 part (injectRelayService p2);
               p4 = registerParticleScopeService p3 part (errorHandlingService reject)
           in case initiateParticle p4 part (Callback resolve) (Callback reject) of
                (Inl e, p5) \<Rightarrow> (Rejected e, p5)
              | (Inr u, p5) \<Rightarrow> (Pending, p5)))"

section \<open>Concrete inputs\<close>

text \<open>
  A peer that has not been started, with no handler registered, and a world in which
  every host answers without throwing; the AVM answers \<open>ast\<close> with the JSON text
  \<open>null\<close>.
\<close>

definition example_peer :: "('c, 'h) FluencePeer" where
  "example_peer =
     \<lparr>config = DEFAULT_CONFIG,
      keyPair = \<lparr>getPeerId = ''self'', toEd25519PrivateKey = []\<rparr>,
      jsServiceHost = \<lparr>globalHandlers = [], particleHandlers = []\<rparr>,
      isInitialized = False, printParticleId = False, incomingParticles = [],
      timeouts = [], particleSourceSubscription = False, trace = []\<rparr>"

definition example_marineHost :: IMarineHost where
  "example_marineHost =
     \<lparr>marineHost_start = Inr (), marineHost_stop = Inr (),
      marineHost_createService = (\<lambda>wasm sid. Inr ()),
      marineHost_removeService = (\<lambda>sid. Inr ()),
      marineHost_hasService = (\<lambda>sid. Inr (sid = ''greeting'')),
      marineHost_callService = (\<lambda>sid fn as. Inr (JStr ''null''))\<rparr>"

definition example_connection :: IConnection where
  "example_connection =
     \<lparr>connection_start = Inr (), connection_stop = Inr (),
      connection_supportsRelay = True, connection_getRelayPeerId = ''relay'',
      connection_sendParticle = (\<lambda>ps p. Inr ())\<rparr>"

definition example_world :: world where
  "example_world =
     \<lparr>marineHost = example_marineHost, connection = example_connection,
      jsServiceHost_callService = (\<lambda>req. Inr None), resume_order = []\<rparr>"

definition example_externals :: externals where
  "example_externals =
     \<lparr>JSON_stringify = (\<lambda>v. ''json''),
      JSON_parse = (\<lambda>s. if s = ''null'' then Inr JNull else Inl (Err Error ''SyntaxError'')),
      jsonify = (\<lambda>v. ''json''),
      getErrorMessage = message\<rparr>"

text \<open>
  The same peer after \<open>start()\<close>; a particle created at time 1000 with a ttl of 50; a
  queue item for it; an AVM library whose serialized arguments are the script and the
  length of \<open>prevData\<close>, and whose results have the \<open>retCode\<close> that Marine
  answered and the data \<open>[7]\<close>; worlds
  in which Marine answers \<open>callService\<close> with a given value, or the JS service host
  throws a given value; a call request for a given service.
\<close>

definition started_peer :: "('c, 'h) FluencePeer" where
  "started_peer = example_peer\<lparr>isInitialized := True\<rparr>"

definition example_particle :: Particle where
  "example_particle =
     \<lparr>id' = ''p1'', initPeerId = ''self'', timestamp = 1000, ttl = 50,
      script = ''(null)'', data = [], signature = [1]\<rparr>"

definition example_item :: "string ParticleQueueItem" where
  "example_item =
     \<lparr>particle = example_particle, callResults = [],
      onSuccess = Callback ''resolve'', onError = Callback ''reject''\<rparr>"

definition example_result :: "int \<Rightarrow> InterpreterResult" where
  "example_result code =
     \<lparr>retCode' = code, errorMessage = ''boom'', data' = [7], nextPeerPks = [],
      callRequests = []\<rparr>"

definition example_avm :: AvmLibrary where
  "example_avm =
     \<lparr>serializeAvmArgs = (\<lambda>params scr prev cur results. [JStr scr, JNum (int (length prev))]),
      deserializeAvmResult =
        (\<lambda>v. case v of JNum code \<Rightarrow> Inr (example_result code)
                | other \<Rightarrow> Inl (Err Error ''not an interpreter result''))\<rparr>"

definition world_answering :: "json \<Rightarrow> world" where
  "world_answering v =
     example_world\<lparr>marineHost := example_marineHost\<lparr>marineHost_callService := (\<lambda>sid fn as. Inr v)\<rparr>\<rparr>"

definition world_js_throwing :: "thrown \<Rightarrow> world" where
  "world_js_throwing e = example_world\<lparr>jsServiceHost_callService := (\<lambda>req. Inl e)\<rparr>"

definition example_req :: "string \<Rightarrow> CallServiceData" where
  "example_req sid =
     \<lparr>fnName = ''hello'', args = [], serviceId = sid, tetraplets = JArr [],
      particleContext = getParticleContext example_particle (JArr [])\<rparr>"

text \<open>
  Clock readings at which the example particle has expired before the first filter
  (\<open>clock_a\<close>), or only after the interpreter has run (\<open>clock_b\<close>); five items of one
  group, the third taken up while the peer is stopped; a \<open>Particle.createNew\<close> that
  refuses an empty script and a zero ttl.
\<close>

definition clock_a :: Clock where
  "clock_a =
     \<lparr>now_tap1 = 1051, now_filter1 = 1052, now_ttl = 1053, now_tap2 = 1054, now_filter2 = 1055\<rparr>"

definition clock_b :: Clock where
  "clock_b =
     \<lparr>now_tap1 = 1001, now_filter1 = 1002, now_ttl = 1003, now_tap2 = 1060, now_filter2 = 1061\<rparr>"

text \<open>
  Clock readings at which the example particle expires between the two readings of the
  first filter: it has not expired at 1050 and has at 1051. A started peer that holds a
  particle-scope handler for the example particle and has no timer armed.
\<close>

definition clock_c :: Clock where
  "clock_c =
     \<lparr>now_tap1 = 1050, now_filter1 = 1051, now_ttl = 1052, now_tap2 = 1053, now_filter2 = 1054\<rparr>"

definition waiting_peer :: "(string, string) FluencePeer" where
  "waiting_peer =
     started_peer\<lparr>jsServiceHost :=
       registerParticleScopeHandler ''p1'' ''callbackSrv'' ''response'' ''handler''
         (jsServiceHost (started_peer :: (string, string) FluencePeer))\<rparr>"

definition example_steps :: "(bool \<times> world \<times> nat \<times> string ParticleQueueItem) list" where
  "example_steps =
     [(True, world_answering (JNum 0), 1001, example_item),
      (True, world_answering (JNum 1), 1002, example_item),
      (False, world_answering (JNum 0), 1003, example_item),
      (True, world_answering JNull, 1004, example_item),
      (True, world_answering (JNum 0), 1005, example_item)]"

definition example_createNew :: "string \<Rightarrow> PeerIdB58 \<Rightarrow> nat \<Rightarrow> KeyPair \<Rightarrow> thrown + Particle" where
  "example_createNew scr pid t kp =
     (if scr = [] \<or> t = 0 then Inl (Err Error ''invalid particle'')
      else Inr (example_particle\<lparr>initPeerId := pid, ttl := t, script := scr\<rparr>))"

text \<open>
  An interpreted item with three call requests: one for a service of Marine, one for
  \<open>callbackSrv\<close> / \<open>response\<close>, one for a service that nobody has; a world in which
  the event loop resumes what the dispatch stage started in a given order.
\<close>

definition example_requests :: "(nat \<times> CallRequest) list" where
  "example_requests =
     [(0, \<lparr>serviceId' = ''greeting'', functionName = ''hello'', arguments = [],
           tetraplets' = JArr []\<rparr>),
      (1, \<lparr>serviceId' = ''callbackSrv'', functionName = ''response'', arguments = [],
           tetraplets' = JArr []\<rparr>),
      (2, \<lparr>serviceId' = ''unknown'', functionName = ''f'', arguments = [],
           tetraplets' = JArr []\<rparr>)]"

definition example_interpreted :: "string InterpretedItem" where
  "example_interpreted =
     \<lparr>particle = example_particle, callResults = [],
      onSuccess = Callback ''resolve'', onError = Callback ''reject'',
      result' = Inr ((example_result 0)\<lparr>callRequests := example_requests\<rparr>)\<rparr>"

definition world_resuming :: "tick list \<Rightarrow> world" where
  "world_resuming ticks = example_world\<lparr>resume_order := ticks\<rparr>"

section \<open>Theorems\<close>

lemmas ex_defs = example_world_def example_peer_def example_marineHost_def example_connection_def
  example_externals_def started_peer_def example_particle_def example_item_def example_result_def
  example_avm_def world_answering_def world_js_throwing_def example_req_def DEFAULT_CONFIG_def
  getParticleContext_def

subsection \<open>RelayConnection.sendParticle\<close>

lemma sendParticle_rejected:
  "length nextPeerIds \<noteq> 1 \<Longrightarrow> first_elem nextPeerIds \<noteq> Some (relayPeerId c) \<Longrightarrow>
   sendParticle stringify c nextPeerIds payload
     = Inl (Err Error
         (''Relay connection only accepts peer id of the connected relay. Got: ''
            @ stringify nextPeerIds @ '' instead.''))"
  by (simp add: sendParticle_def)

lemma sendParticle_passes_guard:
  "length nextPeerIds = 1 \<or> first_elem nextPeerIds = Some (relayPeerId c) \<Longrightarrow>
   sendParticle stringify c nextPeerIds payload
     = (case dialProtocol c (relayAddress c) PROTOCOL_NAME of
          Inl e \<Rightarrow> Inl e
        | Inr stream \<Rightarrow> Inr (c\<lparr>sink := sink c @ [payload]\<rparr>))"
  by (auto simp add: sendParticle_def)

lemma sendParticle_relay_first_of_two_sent:
  "sendParticle (\<lambda>ps. concat ps)
     \<lparr>peerId = ''self'', relayAddress = ''/dns4/relay'', relayPeerId = ''relay'',
      dialProtocol = (\<lambda>a p. Inr ()), sink = []\<rparr>
     [''relay'', ''other''] ''particle''
   = Inr \<lparr>peerId = ''self'', relayAddress = ''/dns4/relay'', relayPeerId = ''relay'',
      dialProtocol = (\<lambda>a p. Inr ()), sink = [''particle'']\<rparr>"
  by (simp add: sendParticle_def)

text \<open>
  C1. The spec asks that every \<open>nextPeerIds\<close> other than \<open>[relayPeerId]\<close> be refused
  with nothing written. The guard joins its two tests with \<open>&&\<close>, so it refuses only a
  list that has both the wrong length and the wrong first element: a one-element list
  naming another peer passes it. With relay \<open>relay\<close> and \<open>nextPeerIds = [other]\<close> the
  call succeeds and the particle is written to the stream.
\<close>

theorem sendParticle_other_single_peer_sent:
  "sendParticle (\<lambda>ps. concat ps)
     \<lparr>peerId = ''self'', relayAddress = ''/dns4/relay'', relayPeerId = ''relay'',
      dialProtocol = (\<lambda>a p. Inr ()), sink = []\<rparr>
     [''other''] ''particle''
   = Inr \<lparr>peerId = ''self'', relayAddress = ''/dns4/relay'', relayPeerId = ''relay'',
      dialProtocol = (\<lambda>a p. Inr ()), sink = [''particle'']\<rparr>"
  by (simp add: sendParticle_def)

subsection \<open>The lifecycle and the API entry points\<close>

lemma start_marine_failure:
  "marineHost_start (marineHost w) = Inl e \<Longrightarrow>
   fst (start w p) = Inl e \<and> isInitialized (snd (start w p)) = isInitialized p
   \<and> particleSourceSubscription (snd (start w p)) = particleSourceSubscription p"
  by (simp add: start_def emit_def Let_def)

lemma start_connection_failure:
  "marineHost_start (marineHost w) = Inr () \<Longrightarrow> connection_start (connection w) = Inl e \<Longrightarrow>
   fst (start w p) = Inl e \<and> isInitialized (snd (start w p))"
  by (simp add: start_def emit_def startParticleProcessing_def Let_def)

text \<open>
  C3, as stated, fails: when the peer of the example is started in a world where both
  hosts start without throwing, \<open>connection.start()\<close> is called with \<open>isInitialized\<close>
  already \<open>true\<close>, and never with it \<open>false\<close>.
\<close>

theorem start_connection_sees_initialized:
  "trace (snd (start example_world (example_peer :: (unit, unit) FluencePeer)))
     = [(MarineHostStart, False), (ParticleSourceSubscribe, False), (ConnectionStart, True)]
   \<and> (ConnectionStart, False)
        \<notin> set (trace (snd (start example_world (example_peer :: (unit, unit) FluencePeer))))"
  by (simp add: start_def example_world_def example_peer_def example_marineHost_def
      example_connection_def emit_def startParticleProcessing_def DEFAULT_CONFIG_def)

text \<open>
  C3, amended. On a peer that is not initialized, if the Marine host starts, \<open>start()\<close>
  starts the Marine host, then subscribes to \<open>connection.particleSource\<close>, then sets
  \<open>isInitialized\<close>, then starts the Connection: the first two happen with
  \<open>isInitialized\<close> \<open>false\<close>, \<open>connection.start()\<close> runs with it \<open>true\<close>, and it is
  \<open>true\<close> when \<open>start()\<close> ends, whatever \<open>connection.start()\<close> answers.
\<close>

theorem start_order:
  "\<not> isInitialized p \<Longrightarrow> marineHost_start (marineHost w) = Inr () \<Longrightarrow>
   trace (snd (start w p))
     = trace p @ [(MarineHostStart, False), (ParticleSourceSubscribe, False),
                  (ConnectionStart, True)]
   \<and> particleSourceSubscription (snd (start w p))
   \<and> isInitialized (snd (start w p))"
  by (simp add: start_def emit_def startParticleProcessing_def Let_def split: sum.splits)

theorem start_order_witness:
  "\<not> isInitialized (example_peer :: (unit, unit) FluencePeer)
   \<and> marineHost_start (marineHost example_world) = Inr ()
   \<and> trace (snd (start example_world (example_peer :: (unit, unit) FluencePeer)))
       = [(MarineHostStart, False), (ParticleSourceSubscribe, False), (ConnectionStart, True)]
   \<and> isInitialized (snd (start example_world (example_peer :: (unit, unit) FluencePeer)))"
proof -
  have a: "\<not> isInitialized (example_peer :: (unit, unit) FluencePeer)"
    by (simp add: example_peer_def)
  have b: "marineHost_start (marineHost example_world) = Inr ()"
    by (simp add: example_world_def example_marineHost_def)
  have c: "trace (example_peer :: (unit, unit) FluencePeer) = []"
    by (simp add: example_peer_def)
  show ?thesis
    using a b c start_order [OF a b] by simp
qed

lemma particleSource_next_enqueues:
  "incomingParticles (particleSource_next part p)
     = incomingParticles p
         @ [\<lparr>particle = part, callResults = [], onSuccess = NoOp, onError = NoOp\<rparr>]
   \<and> trace (particleSource_next part p) = trace p"
  by (simp add: particleSource_next_def incomingParticles_next_def)

lemma initiateParticle_not_initialized:
  "\<not> isInitialized p \<Longrightarrow>
   initiateParticle p part onSucc onErr
     = (Inl (Err Error ''Cannot initiate new particle: peer is not initialized''), p)"
  by (simp add: initiateParticle_def)

lemma initiateParticle_initialized:
  "isInitialized p \<Longrightarrow>
   fst (initiateParticle p part onSucc onErr) = Inr ()
   \<and> incomingParticles (snd (initiateParticle p part onSucc onErr))
       = incomingParticles p
           @ [\<lparr>particle = part, callResults = [], onSuccess = onSucc, onError = onErr\<rparr>]"
  by (simp add: initiateParticle_def incomingParticles_next_def emit_def Let_def)

lemma parseAst_ignores_isInitialized:
  "fst (parseAst ext w (p\<lparr>isInitialized := b\<rparr>) air) = fst (parseAst ext w p air)"
  by (simp add: parseAst_def Let_def split: sum.splits json.splits)

text \<open>
  C9. \<open>initiateParticle\<close> throws on a peer that is not initialized
  (\<open>initiateParticle_not_initialized\<close>), but \<open>parseAst\<close> does not: on the peer of the
  example, which is not initialized, \<open>parseAst("(null)")\<close> calls \<open>avm.ast\<close> and returns
  its parsed answer.
\<close>

theorem parseAst_uninitialized_calls_avm:
  "\<not> isInitialized (example_peer :: (unit, unit) FluencePeer)
   \<and> parseAst example_externals example_world
        (example_peer :: (unit, unit) FluencePeer) ''(null)''
      = (Inr \<lparr>success' = True, data_ast = JNull\<rparr>,
         emit (MarineHostCallService ''avm'' ''ast'' [JStr ''(null)'']) example_peer)"
  by (simp add: parseAst_def example_world_def example_peer_def example_marineHost_def
      example_externals_def emit_def startsWith_def)

lemma hasService_registerGlobalHandler:
  "hasService (registerGlobalHandler sid fn h host) sid"
  by (simp add: hasService_def registerGlobalHandler_def set_key_def)

lemma hasService_registerParticleScopeHandler:
  "hasService (registerParticleScopeHandler pid sid fn h host) sid"
  by (simp add: hasService_def registerParticleScopeHandler_def set_key_def)

lemma hasService_no_handlers:
  "\<not> hasService \<lparr>globalHandlers = [], particleHandlers = []\<rparr> sid"
  by (simp add: hasService_def)

lemma registerMarineService_present_in_marine_alone:
  "marineHost_hasService (marineHost example_world) ''greeting'' = Inr True
   \<and> registerMarineService example_world (example_peer :: (unit, unit) FluencePeer) [] ''greeting''
      = (Inr (), emit (MarineHostCreateService [] ''greeting'') example_peer)"
  by (simp add: registerMarineService_def example_world_def example_peer_def
      example_marineHost_def hasService_def)

text \<open>
  C10. \<open>registerMarineService(wasm, serviceId)\<close> throws
  \<open>Service with '<serviceId>' id already exists\<close>, without calling Marine, when the JS
  service host has a handler under the service id, and otherwise calls
  \<open>marineHost.createService(wasm, serviceId)\<close> and ends as that call ends. What
  \<open>marineHost.hasService\<close> would answer plays no part: replacing it changes nothing.
\<close>

theorem registerMarineService_guard:
  "registerMarineService w p wasm sid
     = (if hasService (jsServiceHost p) sid
        then (Inl (Err Error (''Service with '' @ squote @ sid @ squote @ '' id already exists'')), p)
        else (marineHost_createService (marineHost w) wasm sid,
              emit (MarineHostCreateService wasm sid) p))
   \<and> registerMarineService (w\<lparr>marineHost := (marineHost w)\<lparr>marineHost_hasService := h\<rparr>\<rparr>) p wasm sid
     = registerMarineService w p wasm sid"
  by (simp add: registerMarineService_def)

subsection \<open>Service calls\<close>

lemma fst_execSingleCallRequest_peer:
  "fst (execSingleCallRequest ext w p req) = fst (execSingleCallRequest ext w p' req)"
  by (simp add: execSingleCallRequest_def Let_def split: sum.splits option.splits)

lemma execCallRequest_alt:
  "execCallRequest ext w p req
     = (case fst (execSingleCallRequest ext w p req) of
          Inl err \<Rightarrow> catchServiceError ext req err
        | Inr res \<Rightarrow> res,
        snd (execSingleCallRequest ext w p req))"
  by (cases "execSingleCallRequest ext w p req") (simp add: execCallRequest_def split: sum.splits)

lemma fst_execCallRequest_peer:
  "fst (execCallRequest ext w p req) = fst (execCallRequest ext w p' req)"
  using fst_execSingleCallRequest_peer [of ext w p req p']
  by (simp add: execCallRequest_alt)

text \<open>
  C5. A call request is resolved in this order. If \<open>marineHost.hasService(req.serviceId)\<close>
  holds, the call goes to Marine (the JS service host is not asked) and its return value
  is wrapped with \<open>retCode = success\<close>. Otherwise \<open>jsServiceHost.callService(req)\<close> is
  tried: \<open>null\<close> becomes a result with \<open>retCode = error\<close> whose text says that no service
  was found for the service id, function name and arguments; any other answer is the
  result. A value thrown on the way (by \<open>hasService\<close>, by Marine's \<open>callService\<close> or by
  the JS service host) becomes \<open>{retCode = error, result: err.message}\<close> when it is a
  \<open>ServiceError\<close>, and else a \<open>retCode = error\<close> result whose text starts with
  \<open>Service call failed\<close> and names \<open>fnName\<close> and \<open>serviceId\<close>.
\<close>

theorem execCallRequest_resolution:
  "(marineHost_hasService (marineHost w) (serviceId req) = Inr True \<longrightarrow>
      (\<forall>v. marineHost_callService (marineHost w) (serviceId req) (fnName req) (args req) = Inr v
         \<longrightarrow> execCallRequest ext w p req
              = (\<lparr>retCode = success, result = v\<rparr>,
                 emit (MarineHostCallService (serviceId req) (fnName req) (args req))
                   (emit (MarineHostHasService (serviceId req)) p))))
   \<and> (marineHost_hasService (marineHost w) (serviceId req) = Inr False \<longrightarrow>
        (jsServiceHost_callService w req = Inr None \<longrightarrow>
           fst (execCallRequest ext w p req)
             = \<lparr>retCode = error,
                result = JStr (''No service found for service call: serviceId=''
                  @ squote @ serviceId req @ squote @ '', fnName='' @ squote
                  @ fnName req @ squote @ '' args='' @ squote
                  @ jsonify ext (JArr (args req)) @ squote)\<rparr>)
        \<and> (\<forall>res. jsServiceHost_callService w req = Inr (Some res) \<longrightarrow>
               fst (execCallRequest ext w p req) = res)
        \<and> snd (execCallRequest ext w p req)
             = emit (JsServiceHostCallService req) (emit (MarineHostHasService (serviceId req)) p))
   \<and> (\<forall>e. fst (execSingleCallRequest ext w p req) = Inl e \<longrightarrow>
          fst (execCallRequest ext w p req)
            = (if instanceofServiceError e
               then \<lparr>retCode = error, result = JStr (message e)\<rparr>
               else \<lparr>retCode = error,
                     result = JStr (''Service call failed. fnName='' @ dquote @ fnName req @ dquote
                       @ '' serviceId='' @ dquote @ serviceId req @ dquote
                       @ '' error: '' @ getErrorMessage ext e)\<rparr>))
   \<and> (\<forall>e. (fst (execSingleCallRequest ext w p req) = Inl e)
          = (marineHost_hasService (marineHost w) (serviceId req) = Inl e
             \<or> (marineHost_hasService (marineHost w) (serviceId req) = Inr True
                 \<and> marineHost_callService (marineHost w) (serviceId req) (fnName req) (args req) = Inl e)
             \<or> (marineHost_hasService (marineHost w) (serviceId req) = Inr False
                 \<and> jsServiceHost_callService w req = Inl e)))"
  by (auto simp add: execCallRequest_alt execSingleCallRequest_def catchServiceError_def Let_def
      split: sum.splits option.splits)

theorem execCallRequest_resolution_witness:
  "fst (execCallRequest example_externals example_world
          (example_peer :: (unit, unit) FluencePeer) (example_req ''greeting''))
     = \<lparr>retCode = success, result = JStr ''null''\<rparr>
   \<and> fst (execCallRequest example_externals example_world
          (example_peer :: (unit, unit) FluencePeer) (example_req ''unknown''))
     = \<lparr>retCode = error,
        result = JStr (''No service found for service call: serviceId='' @ squote @ ''unknown''
          @ squote @ '', fnName='' @ squote @ ''hello'' @ squote @ '' args='' @ squote
          @ ''json'' @ squote)\<rparr>
   \<and> fst (execCallRequest example_externals (world_js_throwing (Err ServiceError ''denied''))
          (example_peer :: (unit, unit) FluencePeer) (example_req ''unknown''))
     = \<lparr>retCode = error, result = JStr ''denied''\<rparr>
   \<and> fst (execCallRequest example_externals (world_js_throwing (Err Error ''broken''))
          (example_peer :: (unit, unit) FluencePeer) (example_req ''unknown''))
     = \<lparr>retCode = error,
        result = JStr (''Service call failed. fnName='' @ dquote @ ''hello'' @ dquote
          @ '' serviceId='' @ dquote @ ''unknown'' @ dquote @ '' error: broken'')\<rparr>"
proof -
  have m1: "marineHost_hasService (marineHost example_world) (serviceId (example_req ''greeting''))
      = Inr True"
    by (simp add: ex_defs)
  have m2: "marineHost_callService (marineHost example_world) (serviceId (example_req ''greeting''))
      (fnName (example_req ''greeting'')) (args (example_req ''greeting'')) = Inr (JStr ''null'')"
    by (simp add: ex_defs)
  have a: "fst (execCallRequest example_externals example_world
          (example_peer :: (unit, unit) FluencePeer) (example_req ''greeting''))
     = \<lparr>retCode = success, result = JStr ''null''\<rparr>"
    using execCallRequest_resolution [where w = example_world and req = "example_req ''greeting''"
        and ext = example_externals and p = "example_peer :: (unit, unit) FluencePeer"] m1 m2
    by simp
  have j1: "marineHost_hasService (marineHost example_world) (serviceId (example_req ''unknown''))
      = Inr False"
    by (simp add: ex_defs)
  have j2: "jsServiceHost_callService example_world (example_req ''unknown'') = Inr None"
    by (simp add: ex_defs)
  have b: "fst (execCallRequest example_externals example_world
          (example_peer :: (unit, unit) FluencePeer) (example_req ''unknown''))
     = \<lparr>retCode = error,
        result = JStr (''No service found for service call: serviceId='' @ squote @ ''unknown''
          @ squote @ '', fnName='' @ squote @ ''hello'' @ squote @ '' args='' @ squote
          @ ''json'' @ squote)\<rparr>"
    using execCallRequest_resolution [where w = example_world and req = "example_req ''unknown''"
        and ext = example_externals and p = "example_peer :: (unit, unit) FluencePeer"] j1 j2
    by (simp add: ex_defs)
  have t1: "marineHost_hasService (marineHost (world_js_throwing e)) (serviceId (example_req ''unknown''))
      = Inr False" for e
    by (simp add: ex_defs)
  have t2: "jsServiceHost_callService (world_js_throwing e) (example_req ''unknown'') = Inl e" for e
    by (simp add: ex_defs)
  have t3: "fst (execSingleCallRequest example_externals (world_js_throwing e)
      (example_peer :: (unit, unit) FluencePeer) (example_req ''unknown'')) = Inl e" for e
    using execCallRequest_resolution [where w = "world_js_throwing e"
        and req = "example_req ''unknown''" and ext = example_externals
        and p = "example_peer :: (unit, unit) FluencePeer"] t1 [of e] t2 [of e]
    by simp
  have c: "fst (execCallRequest example_externals (world_js_throwing (Err ServiceError ''denied''))
          (example_peer :: (unit, unit) FluencePeer) (example_req ''unknown''))
     = \<lparr>retCode = error, result = JStr ''denied''\<rparr>"
    using execCallRequest_resolution [where w = "world_js_throwing (Err ServiceError ''denied'')"
        and req = "example_req ''unknown''" and ext = example_externals
        and p = "example_peer :: (unit, unit) FluencePeer"] t3 [of "Err ServiceError ''denied''"]
    by simp
  have d: "fst (execCallRequest example_externals (world_js_throwing (Err Error ''broken''))
          (example_peer :: (unit, unit) FluencePeer) (example_req ''unknown''))
     = \<lparr>retCode = error,
        result = JStr (''Service call failed. fnName='' @ dquote @ ''hello'' @ dquote
          @ '' serviceId='' @ dquote @ ''unknown'' @ dquote @ '' error: broken'')\<rparr>"
    using execCallRequest_resolution [where w = "world_js_throwing (Err Error ''broken'')"
        and req = "example_req ''unknown''" and ext = example_externals
        and p = "example_peer :: (unit, unit) FluencePeer"] t3 [of "Err Error ''broken''"]
    by (simp add: ex_defs)
  from a b c d show ?thesis by simp
qed

subsection \<open>Dispatch and expiration\<close>

text \<open>
  C4. When the dispatch stage runs on a peer that has not been stopped, for an item whose
  interpreter outcome is an \<open>Error\<close> (with message \<open>msg\<close>) or an \<open>InterpreterResult\<close>
  with a non-zero \<open>retCode\<close> (with error message \<open>msg\<close>), the only thing the stage does
  is to call the item's \<open>onError\<close>, once, with an \<open>InterpreterError\<close> whose text carries
  \<open>msg\<close> and the particle id: no particle is sent, no call request is executed, nothing
  is put back into the queue.
\<close>

theorem dispatch_interpreter_failure:
  "isInitialized p \<Longrightarrow>
   (\<exists>e. result' item = Inl e \<and> msg = message e)
     \<or> (\<exists>r. result' item = Inr r \<and> retCode' r \<noteq> 0 \<and> msg = errorMessage r) \<Longrightarrow>
   dispatch ext w p item
     = emit (OnErrorCall (onError item)
               (Err InterpreterError
                  (''Script interpretation failed: '' @ msg
                     @ ''  (particle id: '' @ id' (particle item) @ '')''))) p
   \<and> trace (dispatch ext w p item)
       = trace p @ [(OnErrorCall (onError item)
                       (Err InterpreterError
                          (''Script interpretation failed: '' @ msg
                             @ ''  (particle id: '' @ id' (particle item) @ '')'')), True)]
   \<and> incomingParticles (dispatch ext w p item) = incomingParticles p"
  by (auto simp add: dispatch_def emit_def)

theorem dispatch_interpreter_failure_witness:
  "dispatch example_externals example_world (started_peer :: (string, unit) FluencePeer)
     \<lparr>particle = example_particle, callResults = [], onSuccess = Callback ''resolve'',
      onError = Callback ''reject'', result' = Inr (example_result 1)\<rparr>
   = emit (OnErrorCall (Callback ''reject'')
        (Err InterpreterError ''Script interpretation failed: boom  (particle id: p1)''))
       started_peer
   \<and> dispatch example_externals example_world (started_peer :: (string, unit) FluencePeer)
     \<lparr>particle = example_particle, callResults = [], onSuccess = Callback ''resolve'',
      onError = Callback ''reject'', result' = Inl (Err Error ''avm crashed'')\<rparr>
   = emit (OnErrorCall (Callback ''reject'')
        (Err InterpreterError ''Script interpretation failed: avm crashed  (particle id: p1)''))
       started_peer"
proof -
  have i: "isInitialized (started_peer :: (string, unit) FluencePeer)"
    by (simp add: ex_defs)
  have r: "(\<exists>e. result' \<lparr>particle = example_particle, callResults = [],
        onSuccess = Callback ''resolve'', onError = Callback ''reject'',
        result' = Inr (example_result 1)\<rparr> = Inl e \<and> ''boom'' = message e)
     \<or> (\<exists>r. result' \<lparr>particle = example_particle, callResults = [],
        onSuccess = Callback ''resolve'', onError = Callback ''reject'',
        result' = Inr (example_result 1)\<rparr> = Inr r \<and> retCode' r \<noteq> 0 \<and> ''boom'' = errorMessage r)"
    by (simp add: ex_defs)
  have e: "(\<exists>e. result' \<lparr>particle = example_particle, callResults = [],
        onSuccess = Callback ''resolve'', onError = Callback ''reject'',
        result' = Inl (Err Error ''avm crashed'')\<rparr> = Inl e \<and> ''avm crashed'' = message e)
     \<or> (\<exists>r. result' \<lparr>particle = example_particle, callResults = [],
        onSuccess = Callback ''resolve'', onError = Callback ''reject'',
        result' = Inl (Err Error ''avm crashed'')\<rparr> = Inr r \<and> retCode' r \<noteq> 0
          \<and> ''avm crashed'' = errorMessage r)"
    by simp
  show ?thesis
    using dispatch_interpreter_failure [OF i r, of example_externals example_world]
      dispatch_interpreter_failure [OF i e, of example_externals example_world]
    by (simp add: ex_defs)
qed

lemma map_of_filter_key:
  "map_of (filter (\<lambda>kv. fst kv \<noteq> k) kvs) k = None"
  by (induction kvs) auto

lemma map_of_set_key:
  "map_of (set_key k v kvs) k' = (if k' = k then Some v else map_of kvs k')"
proof -
  have "map_of (filter (\<lambda>kv. fst kv \<noteq> k) kvs) k' = map_of kvs k'" if "k' \<noteq> k"
    using that by (induction kvs) auto
  then show ?thesis
    by (simp add: set_key_def map_add_def map_of_filter_key split: option.splits)
qed

lemma expireParticle_effect:
  "scope_of (jsServiceHost (expireParticle p item)) (id' (particle item)) = []
   \<and> globalHandlers (jsServiceHost (expireParticle p item)) = globalHandlers (jsServiceHost p)
   \<and> trace (expireParticle p item)
       = trace p @ [(OnErrorCall (onError item)
                       (Err ExpirationError
                          (''Particle expired after ttl of '' @ show_nat (ttl (particle item))
                             @ ''ms (particle id: '' @ id' (particle item) @ '')'')),
                     isInitialized p)]
   \<and> incomingParticles (expireParticle p item) = incomingParticles p
   \<and> timeouts (expireParticle p item) = timeouts p"
  by (simp add: expireParticle_def emit_def Let_def scope_of_def removeParticleScopeHandlers_def
      map_of_filter_key)

lemma hasExpired_mono: "hasExpired t1 p \<Longrightarrow> t1 \<le> t2 \<Longrightarrow> hasExpired t2 p"
  by (simp add: hasExpired_def)

lemma filterExpiredParticles_expired:
  "hasExpired t1 (particle item) \<Longrightarrow> t1 \<le> t2 \<Longrightarrow>
   filterExpiredParticles f t1 t2 p item = (None, f p item)"
  by (simp add: filterExpiredParticles_def hasExpired_mono)

lemma filterExpiredParticles_alive:
  "\<not> hasExpired t1 (particle item) \<Longrightarrow> \<not> hasExpired t2 (particle item) \<Longrightarrow>
   filterExpiredParticles f t1 t2 p item = (Some item, p)"
  by (simp add: filterExpiredParticles_def)

lemma filterExpiredParticles_expires_between_readings:
  "\<not> hasExpired t1 (particle item) \<Longrightarrow> hasExpired t2 (particle item) \<Longrightarrow>
   filterExpiredParticles f t1 t2 p item = (None, p)"
  by (simp add: filterExpiredParticles_def)

lemma invokeInterpreter_particle:
  "invokeInterpreter avm w now p g item = (Some it, p2, g2) \<Longrightarrow>
   particle it = particle item \<and> onError it = onError item \<and> onSuccess it = onSuccess item"
  by (auto simp add: invokeInterpreter_def Let_def split: if_splits)

text \<open>
  An item whose particle has expired when a filter's \<open>tap\<close> reads the clock (the clock
  not going back before the filter's second reading) is handed to the expiration handler
  and dropped. Before interpretation: the item goes through no further stage, the
  interpreter is not called. After the AVM invocation: the interpreted item is not
  dispatched. The expiration handler removes every particle-scope handler of the
  particle's id and calls the item's \<open>onError\<close> with an \<open>ExpirationError\<close> that names
  the ttl and the particle id; it puts nothing into the queue (\<open>x\<close> is any queue
  item, interpreted or not, and \<open>q\<close> any state of the peer).
\<close>

lemma expired_particle_dropped:
  "(hasExpired (now_tap1 c) (particle item) \<and> now_tap1 c \<le> now_filter1 c \<longrightarrow>
      process_item ext avm w c p g item = (expireParticle p item, g))
   \<and> (\<not> hasExpired (now_tap1 c) (particle item) \<and> \<not> hasExpired (now_filter1 c) (particle item)
        \<and> invokeInterpreter avm w (now_ttl c) p g item = (Some it, p_int, g_int)
        \<and> hasExpired (now_tap2 c) (particle item) \<and> now_tap2 c \<le> now_filter2 c \<longrightarrow>
      process_item ext avm w c p g item = (expireParticle p_int it, g_int)
      \<and> particle it = particle item \<and> onError it = onError item)
   \<and> scope_of (jsServiceHost (expireParticle q x)) (id' (particle x)) = []
   \<and> trace (expireParticle q x)
       = trace q @ [(OnErrorCall (onError x)
                       (Err ExpirationError
                          (''Particle expired after ttl of '' @ show_nat (ttl (particle x))
                             @ ''ms (particle id: '' @ id' (particle x) @ '')'')),
                     isInitialized q)]
   \<and> incomingParticles (expireParticle q x) = incomingParticles q"
proof -
  have a: "hasExpired (now_tap1 c) (particle item) \<and> now_tap1 c \<le> now_filter1 c \<longrightarrow>
      process_item ext avm w c p g item = (expireParticle p item, g)"
    by (simp add: process_item_def filterExpiredParticles_expired)
  have b: "\<not> hasExpired (now_tap1 c) (particle item) \<and> \<not> hasExpired (now_filter1 c) (particle item)
        \<and> invokeInterpreter avm w (now_ttl c) p g item = (Some it, p_int, g_int)
        \<and> hasExpired (now_tap2 c) (particle item) \<and> now_tap2 c \<le> now_filter2 c \<longrightarrow>
      process_item ext avm w c p g item = (expireParticle p_int it, g_int)
      \<and> particle it = particle item \<and> onError it = onError item"
  proof (intro impI, elim conjE)
    assume h: "\<not> hasExpired (now_tap1 c) (particle item)" "\<not> hasExpired (now_filter1 c) (particle item)"
      "invokeInterpreter avm w (now_ttl c) p g item = (Some it, p_int, g_int)"
      "hasExpired (now_tap2 c) (particle item)" "now_tap2 c \<le> now_filter2 c"
    from invokeInterpreter_particle [OF h(3)]
    have pi: "particle it = particle item" "onError it = onError item" by simp_all
    from h(4) pi have e: "hasExpired (now_tap2 c) (particle it)" by simp
    show "process_item ext avm w c p g item = (expireParticle p_int it, g_int)
      \<and> particle it = particle item \<and> onError it = onError item"
      using h pi
      by (simp add: process_item_def filterExpiredParticles_alive
          filterExpiredParticles_expired [OF e h(5)])
  qed
  from a b expireParticle_effect [of q x] show ?thesis by simp
qed

lemma show_nat_50: "show_nat 50 = ''50''"
  by (simp add: show_nat.simps digit_char_def)

lemma expired_particle_dropped_example:
  "process_item example_externals example_avm (world_answering (JNum 0)) clock_a
       (started_peer :: (string, unit) FluencePeer) new_group example_item
     = (expireParticle started_peer example_item, new_group)
   \<and> trace (fst (process_item example_externals example_avm (world_answering (JNum 0)) clock_b
       (started_peer :: (string, unit) FluencePeer) new_group example_item))
     = [(MarineHostCallService ''avm'' ''invoke'' [JStr ''(null)'', JNum 0], True),
        (OnErrorCall (Callback ''reject'')
           (Err ExpirationError ''Particle expired after ttl of 50ms (particle id: p1)''), True)]
   \<and> incomingParticles (fst (process_item example_externals example_avm
       (world_answering (JNum 0)) clock_b
       (started_peer :: (string, unit) FluencePeer) new_group example_item)) = []"
proof -
  let ?p = "started_peer :: (string, unit) FluencePeer"
  let ?w = "world_answering (JNum 0)"
  let ?inv = "invokeInterpreter example_avm ?w (now_ttl clock_b) ?p new_group example_item"
  have a1: "hasExpired (now_tap1 clock_a) (particle example_item) \<and> now_tap1 clock_a \<le> now_filter1 clock_a"
    by (simp add: ex_defs clock_a_def hasExpired_def)
  have b1: "\<not> hasExpired (now_tap1 clock_b) (particle example_item)
      \<and> \<not> hasExpired (now_filter1 clock_b) (particle example_item)
      \<and> hasExpired (now_tap2 clock_b) (particle example_item)
      \<and> now_tap2 clock_b \<le> now_filter2 clock_b"
    by (simp add: ex_defs clock_b_def hasExpired_def)
  have inv: "?inv =
      (Some \<lparr>particle = example_particle, callResults = [], onSuccess = Callback ''resolve'',
         onError = Callback ''reject'', result' = Inr (example_result 0)\<rparr>,
       emit (MarineHostCallService ''avm'' ''invoke'' [JStr ''(null)'', JNum 0])
         (?p\<lparr>timeouts := [(example_item, 47)]\<rparr>),
       \<lparr>prevData = [7], firstRun = False\<rparr>)"
    by (simp add: invokeInterpreter_def ex_defs clock_b_def new_group_def emit_def
        getActualTTL_def Let_def)
  have a: "process_item example_externals example_avm ?w clock_a ?p new_group example_item
     = (expireParticle ?p example_item, new_group)"
    using expired_particle_dropped [where c = clock_a and item = example_item
        and ext = example_externals and avm = example_avm and w = ?w and p = ?p
        and g = new_group and q = ?p and x = example_item
        and it = "\<lparr>particle = example_particle, callResults = [], onSuccess = Callback ''resolve'',
           onError = Callback ''reject'', result' = Inr (example_result 0)\<rparr>"
        and p_int = ?p and g_int = new_group] a1
    by blast
  have b: "process_item example_externals example_avm ?w clock_b ?p new_group example_item
     = (expireParticle
          (emit (MarineHostCallService ''avm'' ''invoke'' [JStr ''(null)'', JNum 0])
             (?p\<lparr>timeouts := [(example_item, 47)]\<rparr>))
          \<lparr>particle = example_particle, callResults = [], onSuccess = Callback ''resolve'',
           onError = Callback ''reject'', result' = Inr (example_result 0)\<rparr>,
        \<lparr>prevData = [7], firstRun = False\<rparr>)"
    using expired_particle_dropped [where c = clock_b and item = example_item
        and ext = example_externals and avm = example_avm and w = ?w and p = ?p
        and g = new_group and q = ?p and x = example_item
        and it = "\<lparr>particle = example_particle, callResults = [], onSuccess = Callback ''resolve'',
           onError = Callback ''reject'', result' = Inr (example_result 0)\<rparr>"
        and p_int = "emit (MarineHostCallService ''avm'' ''invoke'' [JStr ''(null)'', JNum 0])
             (?p\<lparr>timeouts := [(example_item, 47)]\<rparr>)"
        and g_int = "\<lparr>prevData = [7], firstRun = False\<rparr>"] b1 inv
    by blast
  show ?thesis
    using a b
    by (simp add: expireParticle_def emit_def Let_def show_nat_50 ex_defs)
qed

text \<open>
  C7. The spec asks that every item whose particle has expired be handed to the
  expiration handler and dropped. Each filter asks \<open>hasExpired\<close> twice, in its \<open>tap\<close>
  and in its \<open>filter\<close>, and each call reads the clock. A particle created at 1000 with
  a ttl of 50 has not expired at 1050 and has expired at 1051: with these two readings
  in the filter that stands before the interpreter, the \<open>tap\<close> does not call the
  expiration handler and the \<open>filter\<close> drops the item. The peer is left as it was: the
  particle-scope handler of the particle is still registered, \<open>onError\<close> has not been
  called, the interpreter has not been called, and no timer has been armed for the group,
  so nothing will call the expiration handler later.
\<close>

theorem expired_between_readings_not_handled:
  "hasExpired (now_filter1 clock_c) (particle example_item)
   \<and> process_item example_externals example_avm (world_answering (JNum 0)) clock_c
        waiting_peer new_group example_item
     = (waiting_peer, new_group)
   \<and> fst (process_item example_externals example_avm (world_answering (JNum 0)) clock_c
        waiting_peer new_group example_item)
     \<noteq> expireParticle waiting_peer example_item
   \<and> scope_of (jsServiceHost (fst (process_item example_externals example_avm
        (world_answering (JNum 0)) clock_c waiting_peer new_group example_item))) ''p1''
     = [((''callbackSrv'', ''response''), ''handler'')]
   \<and> trace (fst (process_item example_externals example_avm (world_answering (JNum 0)) clock_c
        waiting_peer new_group example_item)) = []
   \<and> timeouts (fst (process_item example_externals example_avm (world_answering (JNum 0)) clock_c
        waiting_peer new_group example_item)) = []"
proof -
  have e: "hasExpired (now_filter1 clock_c) (particle example_item)"
    and n: "\<not> hasExpired (now_tap1 clock_c) (particle example_item)"
    by (simp_all add: ex_defs clock_c_def hasExpired_def)
  have r: "process_item example_externals example_avm (world_answering (JNum 0)) clock_c
        waiting_peer new_group example_item
     = (waiting_peer, new_group)"
    by (simp add: process_item_def filterExpiredParticles_expires_between_readings [OF n e])
  have d: "trace (expireParticle waiting_peer example_item) \<noteq> trace waiting_peer"
    by (simp add: expireParticle_effect)
  have s: "scope_of (jsServiceHost waiting_peer) ''p1''
     = [((''callbackSrv'', ''response''), ''handler'')]"
    by (simp add: waiting_peer_def registerParticleScopeHandler_def scope_of_def set_key_def
        ex_defs)
  have t: "trace waiting_peer = [] \<and> timeouts waiting_peer = []"
    by (simp add: waiting_peer_def ex_defs)
  from d have "waiting_peer \<noteq> expireParticle waiting_peer example_item"
    by auto
  with e r s t show ?thesis by simp
qed

lemma handleCallRequest_alt:
  "handleCallRequest ext w item p (key, cr)
     = (let res = fst (execCallRequest ext w p (callServiceData (particle item) cr));
            p1 = snd (execCallRequest ext w p (callServiceData (particle item) cr))
        in if serviceId' cr = ''callbackSrv'' \<and> functionName cr = ''response''
           then p1
           else incomingParticles_next
                  \<lparr>particle = cloneWithNewData (particle item) [],
                   callResults = [(key, \<lparr>retCode = retCode res, result = jsonify ext (result res)\<rparr>)],
                   onSuccess = onSuccess item, onError = onError item\<rparr> p1)"
  by (simp add: handleCallRequest_def callServiceData_def Let_def split: prod.splits)

lemma incomingParticles_emit [simp]: "incomingParticles (emit ev p) = incomingParticles p"
  by (simp add: emit_def)

lemma incomingParticles_execSingleCallRequest:
  "incomingParticles (snd (execSingleCallRequest ext w p req)) = incomingParticles p"
  by (simp add: execSingleCallRequest_def Let_def split: sum.splits option.splits)

lemma incomingParticles_execCallRequest:
  "incomingParticles (snd (execCallRequest ext w p req)) = incomingParticles p"
  by (simp add: execCallRequest_alt incomingParticles_execSingleCallRequest)

lemma incomingParticles_handleCallRequest:
  "incomingParticles (handleCallRequest ext w item p (key, cr))
     = (if serviceId' cr = ''callbackSrv'' \<and> functionName cr = ''response''
        then incomingParticles p
        else incomingParticles p
          @ [\<lparr>particle = cloneWithNewData (particle item) [],
              callResults =
                [(key,
                  \<lparr>retCode = retCode (fst (execCallRequest ext w p
                                  (callServiceData (particle item) cr))),
                   result = jsonify ext (result (fst (execCallRequest ext w p
                                  (callServiceData (particle item) cr))))\<rparr>)],
              onSuccess = onSuccess item, onError = onError item\<rparr>])"
  by (simp add: handleCallRequest_alt Let_def incomingParticles_next_def
      incomingParticles_execCallRequest)

text \<open>
  C6. When a call request \<open>(key, cr)\<close> of an item has completed with \<open>res\<close> (the answer
  of \<open>_execSingleCallRequest\<close>, a rejection turned into an error result): if it targets
  \<open>callbackSrv\<close> / \<open>response\<close> nothing is put into the queue; otherwise exactly one
  item is, whose particle is the original cloned with empty data, whose \<open>callResults\<close>
  is the single pair \<open>(key, {result: jsonify(res.result), retCode: res.retCode})\<close> and
  whose \<open>onSuccess\<close> and \<open>onError\<close> are those of the original item.
\<close>

theorem handleCallRequest_requeue:
  "incomingParticles (handleCallRequest ext w item p (key, cr))
     = (if serviceId' cr = ''callbackSrv'' \<and> functionName cr = ''response''
        then incomingParticles p
        else incomingParticles p
          @ [\<lparr>particle = cloneWithNewData (particle item) [],
              callResults =
                [(key,
                  \<lparr>retCode = retCode (fst (execCallRequest ext w p
                                  (callServiceData (particle item) cr))),
                   result = jsonify ext (result (fst (execCallRequest ext w p
                                  (callServiceData (particle item) cr))))\<rparr>)],
              onSuccess = onSuccess item, onError = onError item\<rparr>])"
  by (rule incomingParticles_handleCallRequest)

lemma incomingParticles_sendFurther:
  "incomingParticles (sendFurther ext w item r p) = incomingParticles p"
  by (simp add: sendFurther_def Let_def split: sum.splits)

lemma dispatch_stopped: "\<not> isInitialized p \<Longrightarrow> dispatch ext w p item = p"
  by (simp add: dispatch_def)

text \<open>
  The dispatch stage starts the send and every call request and leaves them to the event
  loop. A call request resumed three times has run to its end, and what it has done by
  then is \<open>handleCallRequest\<close>; the send resumed once is \<open>sendFurther\<close>.
\<close>

lemma sendFurther_as_ticks:
  "sendFurther ext w item r p
     = ds_peer (resume ext w item r
         (startSend item r \<lparr>ds_peer = p, sendPending = False, tasks = []\<rparr>) ResumeSend)"
  by (simp add: sendFurther_def startSend_def resumeSend_def Let_def split: sum.splits)

lemmas tick_defs = handleCallRequest_alt execCallRequest_alt execSingleCallRequest_def
  startCallRequest_def resumeTask_def callServiceData_def catchServiceError_def Let_def

lemma handleCallRequest_as_ticks:
  "handleCallRequest ext w item p (key, cr)
     = ds_peer (resume ext w item r
         (resume ext w item r
            (resume ext w item r
               (startCallRequest item \<lparr>ds_peer = p, sendPending = False, tasks = []\<rparr> (key, cr))
               (ResumeCallRequest 0))
            (ResumeCallRequest 0))
         (ResumeCallRequest 0))"
proof (cases "marineHost_hasService (marineHost w) (serviceId' cr)")
  case (Inl e)
  then show ?thesis
    by (simp add: tick_defs)
next
  case has: (Inr b)
  show ?thesis
  proof (cases b)
    case True
    show ?thesis
    proof (cases "marineHost_callService (marineHost w) (serviceId' cr) (functionName cr) (arguments cr)")
      case (Inl e)
      with has True show ?thesis
        by (simp add: tick_defs)
    next
      case (Inr v)
      with has True show ?thesis
        by (simp add: tick_defs)
    qed
  next
    case False
    show ?thesis
    proof (cases "jsServiceHost_callService w (callServiceData (particle item) cr)")
      case (Inl e)
      with has False show ?thesis
        by (simp add: tick_defs)
    next
      case js: (Inr res)
      show ?thesis
      proof (cases res)
        case None
        with js has False show ?thesis
          by (simp add: tick_defs)
      next
        case (Some a)
        with js has False show ?thesis
          by (simp add: tick_defs)
      qed
    qed
  qed
qed

lemma execCallRequest_hasService_thrown:
  "marineHost_hasService (marineHost w) (serviceId req) = Inl e \<Longrightarrow>
   fst (execCallRequest ext w p req) = catchServiceError ext req e"
  by (simp add: execCallRequest_alt execSingleCallRequest_def Let_def)

lemma execCallRequest_marine:
  "marineHost_hasService (marineHost w) (serviceId req) = Inr True \<Longrightarrow>
   fst (execCallRequest ext w p req)
     = (case marineHost_callService (marineHost w) (serviceId req) (fnName req) (args req) of
          Inl e \<Rightarrow> catchServiceError ext req e
        | Inr res \<Rightarrow> \<lparr>retCode = success, result = res\<rparr>)"
  by (simp add: execCallRequest_alt execSingleCallRequest_def Let_def split: sum.splits)

lemma execCallRequest_js:
  "marineHost_hasService (marineHost w) (serviceId req) = Inr False \<Longrightarrow>
   fst (execCallRequest ext w p req)
     = (case jsServiceHost_callService w req of
          Inl e \<Rightarrow> catchServiceError ext req e
        | Inr None \<Rightarrow>
            \<lparr>retCode = error,
             result = JStr (''No service found for service call: serviceId=''
               @ squote @ serviceId req @ squote @ '', fnName='' @ squote
               @ fnName req @ squote @ '' args='' @ squote
               @ jsonify ext (JArr (args req)) @ squote)\<rparr>
        | Inr (Some res) \<Rightarrow> res)"
  by (simp add: execCallRequest_alt execSingleCallRequest_def Let_def split: sum.splits option.splits)

lemma resumeTask_fields:
  "task_key (snd (resumeTask ext w item q t)) = task_key t
   \<and> task_req (snd (resumeTask ext w item q t)) = task_req t"
  by (cases "task_stage t")
     (simp_all add: resumeTask_def Let_def split: sum.splits option.splits)

lemma resumeTask_stage_ok:
  "stage_ok ext w p t \<Longrightarrow> stage_ok ext w p (snd (resumeTask ext w item q t))"
proof (cases "task_stage t")
  case AwaitHasService
  then show ?thesis
    by (simp add: resumeTask_def stage_ok_def Let_def execCallRequest_hasService_thrown
        split: sum.splits)
next
  case (AwaitCallService b)
  assume "stage_ok ext w p t"
  with AwaitCallService have h: "marineHost_hasService (marineHost w) (serviceId (task_req t)) = Inr b"
    by (simp add: stage_ok_def)
  show ?thesis
  proof (cases b)
    case True
    with h AwaitCallService show ?thesis
      by (simp add: resumeTask_def stage_ok_def Let_def execCallRequest_marine split: sum.splits)
  next
    case False
    with h AwaitCallService show ?thesis
      by (simp add: resumeTask_def stage_ok_def Let_def execCallRequest_js
          split: sum.splits option.splits)
  qed
next
  case (AwaitThen res)
  then show ?thesis
    by (simp add: resumeTask_def stage_ok_def Let_def)
next
  case Finished
  then show ?thesis
    by (simp add: resumeTask_def stage_ok_def Let_def)
qed

lemma resumeTask_not_then:
  "\<forall>res. task_stage t \<noteq> AwaitThen res \<Longrightarrow>
   incomingParticles (fst (resumeTask ext w item q t)) = incomingParticles q
   \<and> (task_stage (snd (resumeTask ext w item q t)) = Finished) = (task_stage t = Finished)"
  by (cases "task_stage t")
     (simp_all add: resumeTask_def Let_def split: sum.splits option.splits)

lemma resumeTask_then:
  "task_stage t = AwaitThen res \<Longrightarrow>
   task_stage (snd (resumeTask ext w item q t)) = Finished
   \<and> incomingParticles (fst (resumeTask ext w item q t))
       = (if serviceId (task_req t) = ''callbackSrv'' \<and> fnName (task_req t) = ''response''
          then incomingParticles q
          else incomingParticles q
            @ [\<lparr>particle = cloneWithNewData (particle item) [],
                callResults =
                  [(task_key t, \<lparr>retCode = retCode res, result = jsonify ext (result res)\<rparr>)],
                onSuccess = onSuccess item, onError = onError item\<rparr>])"
  by (simp add: resumeTask_def Let_def incomingParticles_next_def)

text \<open>
  Whatever the order of the event loop, the tasks stay those of the item, and the queue
  grows by one item for each call request that finishes and is not a response.
\<close>

lemma resume_inv:
  assumes inv: "dispatch_inv ext w p item crs st"
  shows "dispatch_inv ext w p item crs (resume ext w item r st tick)"
proof (cases tick)
  case ResumeSend
  with inv show ?thesis
    by (simp add: dispatch_inv_def resumeSend_def Let_def split: sum.splits)
next
  case (ResumeCallRequest k)
  show ?thesis
  proof (cases "k < length (tasks st)")
    case False
    with inv ResumeCallRequest show ?thesis by simp
  next
    case inb: True
    define t where "t = tasks st ! k"
    define q1 where "q1 = fst (resumeTask ext w item (ds_peer st) t)"
    define t1 where "t1 = snd (resumeTask ext w item (ds_peer st) t)"
    define st1 where "st1 = st\<lparr>ds_peer := q1, tasks := (tasks st)[k := t1]\<rparr>"
    have st1: "resume ext w item r st tick = st1"
      using inb ResumeCallRequest
      by (simp add: st1_def q1_def t1_def t_def split: prod.splits)
    from inv have keys: "map task_key (tasks st) = map fst crs"
      and reqs: "map task_req (tasks st) = map (\<lambda>kcr. callServiceData (particle item) (snd kcr)) crs"
      and oks: "list_all (stage_ok ext w p) (tasks st)"
      by (simp_all add: dispatch_inv_def)
    from inv obtain ks where ks: "distinct ks"
      "set ks = {j. j < length crs \<and> task_stage (tasks st ! j) = Finished \<and> \<not> is_response (crs ! j)}"
      "incomingParticles (ds_peer st) = incomingParticles p @ map (\<lambda>j. requeued ext w p item (crs ! j)) ks"
      by (auto simp add: dispatch_inv_def)
    from keys have len: "length (tasks st) = length crs"
      by (metis length_map)
    from inb len have kc: "k < length crs" by simp
    have fields: "task_key t1 = task_key t" "task_req t1 = task_req t"
      using resumeTask_fields [of ext w item "ds_peer st" t] by (simp_all add: t1_def)
    from keys inb kc have tk: "task_key t = fst (crs ! k)"
      by (metis t_def nth_map)
    from reqs inb kc have tr: "task_req t = callServiceData (particle item) (snd (crs ! k))"
      by (metis (no_types, lifting) t_def nth_map)
    from oks inb have ok: "stage_ok ext w p t"
      by (simp add: list_all_length t_def)
    have keys1: "map task_key (tasks st1) = map fst crs"
      using keys fields inb
      by (simp add: st1_def map_update t_def) (metis list_update_id map_update)
    have reqs1: "map task_req (tasks st1) = map (\<lambda>kcr. callServiceData (particle item) (snd kcr)) crs"
      using reqs fields inb
      by (simp add: st1_def map_update t_def) (metis list_update_id map_update)
    have oks1: "list_all (stage_ok ext w p) (tasks st1)"
      using oks inb resumeTask_stage_ok [OF ok, of item "ds_peer st"]
      by (simp add: st1_def list_all_length nth_list_update t1_def)
    have other: "task_stage (tasks st1 ! j) = task_stage (tasks st ! j)" if "j \<noteq> k" for j
      using that by (simp add: st1_def)
    have self: "tasks st1 ! k = t1"
      using inb by (simp add: st1_def)
    have resp: "is_response (crs ! k)
        = (serviceId (task_req t) = ''callbackSrv'' \<and> fnName (task_req t) = ''response'')"
      by (simp add: is_response_def tr callServiceData_def)
    have ex: "\<exists>ks1. distinct ks1
        \<and> set ks1 = {j. j < length crs \<and> task_stage (tasks st1 ! j) = Finished \<and> \<not> is_response (crs ! j)}
        \<and> incomingParticles (ds_peer st1)
            = incomingParticles p @ map (\<lambda>j. requeued ext w p item (crs ! j)) ks1"
    proof (cases "\<exists>res. task_stage t = AwaitThen res")
      case False
      then have nt: "\<forall>res. task_stage t \<noteq> AwaitThen res" by simp
      from resumeTask_not_then [OF nt, of ext w item "ds_peer st"]
      have inc: "incomingParticles q1 = incomingParticles (ds_peer st)"
        and fin: "(task_stage t1 = Finished) = (task_stage t = Finished)"
        by (simp_all add: q1_def t1_def)
      have "{j. j < length crs \<and> task_stage (tasks st1 ! j) = Finished \<and> \<not> is_response (crs ! j)}
          = {j. j < length crs \<and> task_stage (tasks st ! j) = Finished \<and> \<not> is_response (crs ! j)}"
      proof (rule Collect_cong)
        fix j
        show "(j < length crs \<and> task_stage (tasks st1 ! j) = Finished \<and> \<not> is_response (crs ! j))
            = (j < length crs \<and> task_stage (tasks st ! j) = Finished \<and> \<not> is_response (crs ! j))"
          using other [of j] self fin by (cases "j = k") (simp_all add: t_def)
      qed
      with ks inc show ?thesis
        by (intro exI [of _ ks]) (simp add: st1_def)
    next
      case True
      then obtain res where st: "task_stage t = AwaitThen res" by blast
      from ok st have res: "res = fst (execCallRequest ext w p (task_req t))"
        by (simp add: stage_ok_def)
      from resumeTask_then [OF st, of ext w item "ds_peer st"]
      have fin: "task_stage t1 = Finished"
        and inc: "incomingParticles q1
          = (if serviceId (task_req t) = ''callbackSrv'' \<and> fnName (task_req t) = ''response''
             then incomingParticles (ds_peer st)
             else incomingParticles (ds_peer st)
               @ [\<lparr>particle = cloneWithNewData (particle item) [],
                   callResults =
                     [(task_key t, \<lparr>retCode = retCode res, result = jsonify ext (result res)\<rparr>)],
                   onSuccess = onSuccess item, onError = onError item\<rparr>])"
        by (simp_all add: q1_def t1_def)
      show ?thesis
      proof (cases "is_response (crs ! k)")
        case True
        have "{j. j < length crs \<and> task_stage (tasks st1 ! j) = Finished \<and> \<not> is_response (crs ! j)}
            = {j. j < length crs \<and> task_stage (tasks st ! j) = Finished \<and> \<not> is_response (crs ! j)}"
        proof (rule Collect_cong)
          fix j
          show "(j < length crs \<and> task_stage (tasks st1 ! j) = Finished \<and> \<not> is_response (crs ! j))
              = (j < length crs \<and> task_stage (tasks st ! j) = Finished \<and> \<not> is_response (crs ! j))"
            using other [of j] True by (cases "j = k") simp_all
        qed
        with ks inc True resp show ?thesis
          by (intro exI [of _ ks]) (simp add: st1_def)
      next
        case False
        have notin: "k \<notin> set ks"
          using ks(2) st by (simp add: t_def)
        have set1: "{j. j < length crs \<and> task_stage (tasks st1 ! j) = Finished \<and> \<not> is_response (crs ! j)}
            = insert k (set ks)"
        proof (rule set_eqI)
          fix j
          show "(j \<in> {j. j < length crs \<and> task_stage (tasks st1 ! j) = Finished
                  \<and> \<not> is_response (crs ! j)}) = (j \<in> insert k (set ks))"
            using other [of j] self fin kc False ks(2) by (cases "j = k") simp_all
        qed
        have item_eq: "\<lparr>particle = cloneWithNewData (particle item) [],
                   callResults =
                     [(task_key t, \<lparr>retCode = retCode res, result = jsonify ext (result res)\<rparr>)],
                   onSuccess = onSuccess item, onError = onError item\<rparr>
            = requeued ext w p item (crs ! k)"
          by (simp add: requeued_def tk res tr)
        from inc False resp item_eq ks(3)
        have "incomingParticles q1
            = incomingParticles p @ map (\<lambda>j. requeued ext w p item (crs ! j)) (ks @ [k])"
          by simp
        with ks(1) notin set1 show ?thesis
          by (intro exI [of _ "ks @ [k]"]) (simp add: st1_def)
      qed
    qed
    from keys1 reqs1 oks1 ex show ?thesis
      by (simp add: st1 dispatch_inv_def)
  qed
qed

lemma foldl_startCallRequest:
  "tasks (foldl (startCallRequest item) st crs)
     = tasks st @ map (\<lambda>kcr. \<lparr>task_key = fst kcr,
                               task_req = callServiceData (particle item) (snd kcr),
                               task_stage = AwaitHasService\<rparr>) crs
   \<and> incomingParticles (ds_peer (foldl (startCallRequest item) st crs))
       = incomingParticles (ds_peer st)
   \<and> sendPending (foldl (startCallRequest item) st crs) = sendPending st"
  by (induction crs arbitrary: st) (simp_all add: startCallRequest_def Let_def)

lemma dispatch_start_tasks:
  "tasks (dispatch_start p item r)
     = map (\<lambda>kcr. \<lparr>task_key = fst kcr,
                    task_req = callServiceData (particle item) (snd kcr),
                    task_stage = AwaitHasService\<rparr>) (callRequests r)
   \<and> incomingParticles (ds_peer (dispatch_start p item r)) = incomingParticles p"
  by (simp add: dispatch_start_def Let_def foldl_startCallRequest startSend_def)

lemma dispatch_start_inv:
  "dispatch_inv ext w p item (callRequests r) (dispatch_start p item r)"
proof -
  let ?st = "dispatch_start p item r"
  have t: "tasks ?st
     = map (\<lambda>kcr. \<lparr>task_key = fst kcr,
                    task_req = callServiceData (particle item) (snd kcr),
                    task_stage = AwaitHasService\<rparr>) (callRequests r)"
    and i: "incomingParticles (ds_peer ?st) = incomingParticles p"
    using dispatch_start_tasks [of p item r] by simp_all
  have none: "{k. k < length (callRequests r) \<and> task_stage (tasks ?st ! k) = Finished
                \<and> \<not> is_response (callRequests r ! k)} = {}"
    by (auto simp add: t)
  have oks: "list_all (stage_ok ext w p) (tasks ?st)"
    by (simp add: t list_all_iff stage_ok_def)
  have keys: "map task_key (tasks ?st) = map fst (callRequests r)"
    by (simp add: t comp_def)
  have reqs: "map task_req (tasks ?st)
      = map (\<lambda>kcr. callServiceData (particle item) (snd kcr)) (callRequests r)"
    by (simp add: t comp_def)
  have "\<exists>ks. distinct ks
      \<and> set ks = {k. k < length (callRequests r) \<and> task_stage (tasks ?st ! k) = Finished
                     \<and> \<not> is_response (callRequests r ! k)}
      \<and> incomingParticles (ds_peer ?st)
          = incomingParticles p @ map (\<lambda>k. requeued ext w p item (callRequests r ! k)) ks"
    using none i by (intro exI [of _ "[]"]) simp
  with keys reqs oks show ?thesis
    unfolding dispatch_inv_def by blast
qed

lemma foldl_resume_inv:
  "dispatch_inv ext w p item crs st \<Longrightarrow>
   dispatch_inv ext w p item crs (foldl (resume ext w item r) st ticks)"
  by (induction ticks arbitrary: st) (simp_all add: resume_inv)

lemma dispatch_requeues:
  assumes "isInitialized p" and "result' item = Inr r" and "retCode' r = 0"
  shows "\<exists>ks. distinct ks
     \<and> set ks \<subseteq> {k. k < length (callRequests r) \<and> \<not> is_response (callRequests r ! k)}
     \<and> incomingParticles (dispatch ext w p item)
         = incomingParticles p @ map (\<lambda>k. requeued ext w p item (callRequests r ! k)) ks"
proof -
  let ?st = "foldl (resume ext w item r) (dispatch_start p item r) (resume_order w)"
  have "dispatch_inv ext w p item (callRequests r) ?st"
    by (rule foldl_resume_inv) (rule dispatch_start_inv)
  then obtain ks where ks: "distinct ks"
    "set ks = {k. k < length (callRequests r) \<and> task_stage (tasks ?st ! k) = Finished
                 \<and> \<not> is_response (callRequests r ! k)}"
    "incomingParticles (ds_peer ?st)
       = incomingParticles p @ map (\<lambda>k. requeued ext w p item (callRequests r ! k)) ks"
    unfolding dispatch_inv_def by blast
  from ks(2) have "set ks \<subseteq> {k. k < length (callRequests r) \<and> \<not> is_response (callRequests r ! k)}"
    by auto
  moreover from assms have "dispatch ext w p item = ds_peer ?st"
    by (simp add: dispatch_def)
  ultimately show ?thesis
    using ks(1) ks(3) by auto
qed

text \<open>
  The order of the queue is the order in which the call requests finish, not that of
  \<open>callRequests\<close>; a call request that is not resumed to its end puts nothing into the
  queue.
\<close>

lemma dispatch_completion_order:
  "map callResults (incomingParticles (dispatch example_externals
       (world_resuming [ResumeCallRequest 2, ResumeCallRequest 0, ResumeCallRequest 1,
                        ResumeCallRequest 2, ResumeCallRequest 1, ResumeCallRequest 2,
                        ResumeCallRequest 1, ResumeCallRequest 0, ResumeCallRequest 0])
       (started_peer :: (string, unit) FluencePeer) example_interpreted))
     = [[(2, \<lparr>retCode = error, result = ''json''\<rparr>)],
        [(0, \<lparr>retCode = success, result = ''json''\<rparr>)]]
   \<and> map callResults (incomingParticles (dispatch example_externals
       (world_resuming [ResumeCallRequest 0, ResumeCallRequest 0, ResumeCallRequest 0,
                        ResumeCallRequest 2, ResumeCallRequest 2])
       (started_peer :: (string, unit) FluencePeer) example_interpreted))
     = [[(0, \<lparr>retCode = success, result = ''json''\<rparr>)]]"
  by (simp add: dispatch_def dispatch_start_def startCallRequest_def resumeTask_def
      callServiceData_def incomingParticles_next_def emit_def cloneWithNewData_def
      example_requests_def example_interpreted_def world_resuming_def ex_defs Let_def)

text \<open>
  When the event loop resumes every call request to its end (three times or more),
  every call request that is not a response has put its item into the queue.
\<close>

lemma resumeTask_rank:
  "min 3 (Suc (stage_rank (task_stage t)))
     \<le> stage_rank (task_stage (snd (resumeTask ext w item q t)))"
  by (cases "task_stage t")
     (simp_all add: resumeTask_def Let_def split: sum.splits option.splits)

lemma resume_length: "length (tasks (resume ext w item r st tick)) = length (tasks st)"
  by (cases tick) (simp_all add: resumeSend_def Let_def split: sum.splits prod.splits)

lemma resume_rank:
  "k < length (tasks st) \<Longrightarrow>
   min 3 (stage_rank (task_stage (tasks st ! k)) + (if tick = ResumeCallRequest k then 1 else 0))
     \<le> stage_rank (task_stage (tasks (resume ext w item r st tick) ! k))"
proof (cases tick)
  case ResumeSend
  then show ?thesis
    by (simp add: resumeSend_def Let_def split: sum.splits)
next
  case (ResumeCallRequest j)
  assume k: "k < length (tasks st)"
  show ?thesis
  proof (cases "j = k")
    case True
    with k ResumeCallRequest resumeTask_rank [of "tasks st ! k" ext w item "ds_peer st"]
    show ?thesis by (simp add: case_prod_beta)
  next
    case False
    with k ResumeCallRequest show ?thesis by (simp add: case_prod_beta)
  qed
qed

lemma foldl_resume_rank:
  "k < length (tasks st) \<Longrightarrow>
   min 3 (stage_rank (task_stage (tasks st ! k)) + count_list ticks (ResumeCallRequest k))
     \<le> stage_rank (task_stage (tasks (foldl (resume ext w item r) st ticks) ! k))"
proof (induction ticks arbitrary: st)
  case Nil
  then show ?case by simp
next
  case (Cons tick ticks)
  let ?st1 = "resume ext w item r st tick"
  from Cons.prems have k1: "k < length (tasks ?st1)" by (simp add: resume_length)
  from Cons.IH [OF k1]
  have ih: "min 3 (stage_rank (task_stage (tasks ?st1 ! k)) + count_list ticks (ResumeCallRequest k))
     \<le> stage_rank (task_stage (tasks (foldl (resume ext w item r) ?st1 ticks) ! k))" .
  from resume_rank [OF Cons.prems, of tick ext w item r]
  have st: "min 3 (stage_rank (task_stage (tasks st ! k)) + (if tick = ResumeCallRequest k then 1 else 0))
     \<le> stage_rank (task_stage (tasks ?st1 ! k))" .
  from ih st show ?case by (auto split: if_splits)
qed

lemma stage_rank_Finished: "3 \<le> stage_rank s \<Longrightarrow> s = Finished"
  by (cases s) simp_all

lemma dispatch_requeues_all:
  assumes "isInitialized p" and "result' item = Inr r" and "retCode' r = 0"
    and all: "\<forall>k < length (callRequests r). 3 \<le> count_list (resume_order w) (ResumeCallRequest k)"
  shows "\<exists>ks. distinct ks
     \<and> set ks = {k. k < length (callRequests r) \<and> \<not> is_response (callRequests r ! k)}
     \<and> incomingParticles (dispatch ext w p item)
         = incomingParticles p @ map (\<lambda>k. requeued ext w p item (callRequests r ! k)) ks"
proof -
  let ?st = "foldl (resume ext w item r) (dispatch_start p item r) (resume_order w)"
  have "dispatch_inv ext w p item (callRequests r) ?st"
    by (rule foldl_resume_inv) (rule dispatch_start_inv)
  then obtain ks where ks: "distinct ks"
    "set ks = {k. k < length (callRequests r) \<and> task_stage (tasks ?st ! k) = Finished
                 \<and> \<not> is_response (callRequests r ! k)}"
    "incomingParticles (ds_peer ?st)
       = incomingParticles p @ map (\<lambda>k. requeued ext w p item (callRequests r ! k)) ks"
    unfolding dispatch_inv_def by blast
  have len: "length (tasks (dispatch_start p item r)) = length (callRequests r)"
    by (simp add: dispatch_start_tasks)
  have fin: "task_stage (tasks ?st ! k) = Finished" if "k < length (callRequests r)" for k
  proof -
    from that len have k: "k < length (tasks (dispatch_start p item r))" by simp
    from all that have "3 \<le> count_list (resume_order w) (ResumeCallRequest k)" by simp
    with foldl_resume_rank [OF k, of "resume_order w" ext w item r]
    have "3 \<le> stage_rank (task_stage (tasks ?st ! k))" by simp
    then show ?thesis by (rule stage_rank_Finished)
  qed
  from ks(2) fin
  have "set ks = {k. k < length (callRequests r) \<and> \<not> is_response (callRequests r ! k)}"
    by auto
  moreover from assms have "dispatch ext w p item = ds_peer ?st"
    by (simp add: dispatch_def)
  ultimately show ?thesis
    using ks(1) ks(3) by auto
qed

subsection \<open>The interpreter and \<open>prevData\<close>\<close>

lemma invokeInterpreter_None:
  "invokeInterpreter avm w now p g item = (None, p1, g1) \<Longrightarrow> prevData g1 = prevData g"
  by (auto simp add: invokeInterpreter_def Let_def split: if_splits)

lemma invokeInterpreter_Some:
  "invokeInterpreter avm w now p g item = (Some it, p1, g1) \<Longrightarrow>
   prevData g1 = prevData_after (prevData g) (result' it)"
  by (auto simp add: invokeInterpreter_def Let_def prevData_after_def split: if_splits sum.splits)

lemma invokeInterpreter_step:
  "prevData (snd (snd (invokeInterpreter avm w now p g item)))
     = (case fst (invokeInterpreter avm w now p g item) of
          None \<Rightarrow> prevData g
        | Some it \<Rightarrow> prevData_after (prevData g) (result' it))"
proof (cases "invokeInterpreter avm w now p g item")
  case (fields r p1 g1)
  then show ?thesis
    by (cases r) (simp_all add: invokeInterpreter_None invokeInterpreter_Some)
qed

lemma invokeInterpreter_call:
  "isInitialized p \<Longrightarrow>
   \<exists>it. fst (invokeInterpreter avm w now p g item) = Some it
     \<and> particle it = particle item
     \<and> result' it =
        (case marineHost_callService (marineHost w) ''avm'' ''invoke''
                (serializeAvmArgs avm
                   (RunParameters (initPeerId (particle item)) (getPeerId (keyPair p))
                      (timestamp (particle item)) (ttl (particle item)) Ed25519
                      (id' (particle item)) (toEd25519PrivateKey (keyPair p)))
                   (script (particle item)) (prevData g) (data (particle item))
                   (callResults item)) of
           Inl e \<Rightarrow> Inl (toError e)
         | Inr res \<Rightarrow> (case deserializeAvmResult avm res of
                         Inl e \<Rightarrow> Inl (toError e) | Inr r \<Rightarrow> Inr r))"
  by (simp add: invokeInterpreter_def Let_def)

lemma invokeInterpreter_stopped:
  "\<not> isInitialized p \<Longrightarrow>
   fst (invokeInterpreter avm w now p g item) = None
   \<and> trace (fst (snd (invokeInterpreter avm w now p g item))) = trace p"
  by (simp add: invokeInterpreter_def Let_def)

lemma invokeInterpreter_trace:
  "isInitialized p \<Longrightarrow>
   trace (fst (snd (invokeInterpreter avm w now p g item)))
     = trace p @ [(MarineHostCallService ''avm'' ''invoke''
                     (serializeAvmArgs avm
                        (RunParameters (initPeerId (particle item)) (getPeerId (keyPair p))
                           (timestamp (particle item)) (ttl (particle item)) Ed25519
                           (id' (particle item)) (toEd25519PrivateKey (keyPair p)))
                        (script (particle item)) (prevData g) (data (particle item))
                        (callResults item)), True)]"
  by (simp add: invokeInterpreter_def Let_def emit_def)

lemma invokeInterpreter_result:
  "isInitialized p \<Longrightarrow>
   map_option result' (fst (invokeInterpreter avm w now p g item))
     = Some (case marineHost_callService (marineHost w) ''avm'' ''invoke''
                (serializeAvmArgs avm
                   (RunParameters (initPeerId (particle item)) (getPeerId (keyPair p))
                      (timestamp (particle item)) (ttl (particle item)) Ed25519
                      (id' (particle item)) (toEd25519PrivateKey (keyPair p)))
                   (script (particle item)) (prevData g) (data (particle item))
                   (callResults item)) of
           Inl e \<Rightarrow> Inl (toError e)
         | Inr res \<Rightarrow> (case deserializeAvmResult avm res of
                         Inl e \<Rightarrow> Inl (toError e) | Inr r \<Rightarrow> Inr r))"
  by (simp add: invokeInterpreter_def Let_def)

lemma invokeInterpreter_keyPair:
  "keyPair (fst (snd (invokeInterpreter avm w now p g item))) = keyPair p"
  by (simp add: invokeInterpreter_def Let_def emit_def)

lemma invokeInterpreter_Some_initialized:
  "invokeInterpreter avm w now p g item = (Some it, p1, g1) \<Longrightarrow> isInitialized p"
  by (auto simp add: invokeInterpreter_def Let_def split: if_splits)

lemma group_run_invocations:
  "\<forall>i < length (group_run avm steps q h).
     inv_args (group_run avm steps q h ! i)
       = serializeAvmArgs avm
           (RunParameters (initPeerId (particle (inv_item (group_run avm steps q h ! i))))
              (getPeerId (keyPair q))
              (timestamp (particle (inv_item (group_run avm steps q h ! i))))
              (ttl (particle (inv_item (group_run avm steps q h ! i)))) Ed25519
              (id' (particle (inv_item (group_run avm steps q h ! i))))
              (toEd25519PrivateKey (keyPair q)))
           (script (particle (inv_item (group_run avm steps q h ! i))))
           (foldl prevData_after (prevData h)
              (map inv_result (take i (group_run avm steps q h))))
           (data (particle (inv_item (group_run avm steps q h ! i))))
           (callResults (inv_item (group_run avm steps q h ! i)))
     \<and> inv_result (group_run avm steps q h ! i)
       = (case marineHost_callService (marineHost (inv_world (group_run avm steps q h ! i)))
                ''avm'' ''invoke'' (inv_args (group_run avm steps q h ! i)) of
            Inl e \<Rightarrow> Inl (toError e)
          | Inr res \<Rightarrow> (case deserializeAvmResult avm res of
                          Inl e \<Rightarrow> Inl (toError e) | Inr r \<Rightarrow> Inr r))"
proof (induction steps arbitrary: q h)
  case Nil
  show ?case by simp
next
  case (Cons s rest)
  obtain b w now item where s: "s = (b, w, now, item)" by (cases s) auto
  let ?q = "q\<lparr>isInitialized := b\<rparr>"
  obtain r p1 g1 where inv: "invokeInterpreter avm w now ?q h item = (r, p1, g1)"
    by (cases "invokeInterpreter avm w now ?q h item") auto
  from invokeInterpreter_keyPair [of avm w now ?q h item] inv
  have kp: "keyPair p1 = keyPair q" by simp
  show ?case
  proof (cases r)
    case None
    with inv have eq: "group_run avm (s # rest) q h = group_run avm rest p1 g1"
      by (simp add: s)
    from inv None have "prevData g1 = prevData h"
      by (simp add: invokeInterpreter_None)
    with Cons.IH [of p1 g1] eq kp show ?thesis by simp
  next
    case (Some it)
    define e0 where "e0 = \<lparr>inv_world = w, inv_item = item,
        inv_args = callArgs (fst (last (trace p1))), inv_result = result' it\<rparr>"
    from Some inv have eq: "group_run avm (s # rest) q h = e0 # group_run avm rest p1 g1"
      by (simp add: s e0_def)
    from inv Some have pd: "prevData g1 = prevData_after (prevData h) (result' it)"
      by (simp add: invokeInterpreter_Some)
    from inv Some have init: "isInitialized ?q"
      by (simp add: invokeInterpreter_Some_initialized)
    from invokeInterpreter_trace [OF init, of avm w now h item] inv
    have args0: "inv_args e0
       = serializeAvmArgs avm
           (RunParameters (initPeerId (particle item)) (getPeerId (keyPair q))
              (timestamp (particle item)) (ttl (particle item)) Ed25519
              (id' (particle item)) (toEd25519PrivateKey (keyPair q)))
           (script (particle item)) (prevData h) (data (particle item)) (callResults item)"
      by (simp add: e0_def)
    from invokeInterpreter_result [OF init, of avm w now h item] inv Some
    have res0: "inv_result e0
       = (case marineHost_callService (marineHost w) ''avm'' ''invoke'' (inv_args e0) of
            Inl e \<Rightarrow> Inl (toError e)
          | Inr res \<Rightarrow> (case deserializeAvmResult avm res of
                          Inl e \<Rightarrow> Inl (toError e) | Inr r \<Rightarrow> Inr r))"
      by (simp add: args0) (simp add: e0_def)
    have w0: "inv_world e0 = w" and i0: "inv_item e0 = item" and r0: "inv_result e0 = result' it"
      by (simp_all add: e0_def)
    show ?thesis
      unfolding eq
    proof (intro allI impI)
      fix i
      assume len: "i < length (e0 # group_run avm rest p1 g1)"
      show "inv_args ((e0 # group_run avm rest p1 g1) ! i)
       = serializeAvmArgs avm
           (RunParameters (initPeerId (particle (inv_item ((e0 # group_run avm rest p1 g1) ! i))))
              (getPeerId (keyPair q))
              (timestamp (particle (inv_item ((e0 # group_run avm rest p1 g1) ! i))))
              (ttl (particle (inv_item ((e0 # group_run avm rest p1 g1) ! i)))) Ed25519
              (id' (particle (inv_item ((e0 # group_run avm rest p1 g1) ! i))))
              (toEd25519PrivateKey (keyPair q)))
           (script (particle (inv_item ((e0 # group_run avm rest p1 g1) ! i))))
           (foldl prevData_after (prevData h)
              (map inv_result (take i (e0 # group_run avm rest p1 g1))))
           (data (particle (inv_item ((e0 # group_run avm rest p1 g1) ! i))))
           (callResults (inv_item ((e0 # group_run avm rest p1 g1) ! i)))
     \<and> inv_result ((e0 # group_run avm rest p1 g1) ! i)
       = (case marineHost_callService (marineHost (inv_world ((e0 # group_run avm rest p1 g1) ! i)))
                ''avm'' ''invoke'' (inv_args ((e0 # group_run avm rest p1 g1) ! i)) of
            Inl e \<Rightarrow> Inl (toError e)
          | Inr res \<Rightarrow> (case deserializeAvmResult avm res of
                          Inl e \<Rightarrow> Inl (toError e) | Inr r \<Rightarrow> Inr r))"
      proof (cases i)
        case 0
        with args0 res0 w0 i0 show ?thesis by simp
      next
        case (Suc j)
        with len have j: "j < length (group_run avm rest p1 g1)" by simp
        from Cons.IH [of p1 g1] j Suc kp pd r0 show ?thesis by simp
      qed
    qed
  qed
qed

text \<open>
  An item changes the state of its own signature group only: the groups do not share
  \<open>prevData\<close>.
\<close>

lemma group_state_pipeline_item:
  "group_state (snd (pipeline_item ext avm w clock (p, groups) item)) k
     = (if k = group_key item
        then snd (process_item ext avm w clock p (group_state groups k) item)
        else group_state groups k)"
  by (simp add: pipeline_item_def group_state_def map_of_set_key split: prod.splits)

text \<open>
  C2. For every invocation of the interpreter in a signature group, \<open>prevData\<close> after the
  invocation is the returned data if the invocation returned (nothing was thrown) with
  \<open>retCode = 0\<close>, and is otherwise the value the invocation was given; an item skipped
  because the peer was stopped calls nothing and leaves it untouched. What an invocation
  is given is the group's \<open>prevData\<close>: \<open>avm.invoke\<close> is called, once, with
  \<open>serializeAvmArgs(runParams, script, prevData, data, callResults)\<close>, and the outcome
  of the item is the answer to that very call. So, over the items of one group,
  invocation \<open>i\<close> is called with the \<open>prevData\<close> that comes from the group's first one
  by going through the outcomes of the invocations before it: the returned data for each
  that returned with \<open>retCode = 0\<close>, no change for each of the others.
\<close>

theorem prevData_threading:
  "prevData (snd (snd (invokeInterpreter avm w now p g item)))
     = (case fst (invokeInterpreter avm w now p g item) of
          None \<Rightarrow> prevData g
        | Some it \<Rightarrow> prevData_after (prevData g) (result' it))
   \<and> (\<not> isInitialized p \<longrightarrow>
        fst (invokeInterpreter avm w now p g item) = None
        \<and> trace (fst (snd (invokeInterpreter avm w now p g item))) = trace p)
   \<and> (isInitialized p \<longrightarrow>
        trace (fst (snd (invokeInterpreter avm w now p g item)))
          = trace p @ [(MarineHostCallService ''avm'' ''invoke''
                          (serializeAvmArgs avm
                             (RunParameters (initPeerId (particle item)) (getPeerId (keyPair p))
                                (timestamp (particle item)) (ttl (particle item)) Ed25519
                                (id' (particle item)) (toEd25519PrivateKey (keyPair p)))
                             (script (particle item)) (prevData g) (data (particle item))
                             (callResults item)), True)]
        \<and> map_option result' (fst (invokeInterpreter avm w now p g item))
          = Some (case marineHost_callService (marineHost w) ''avm'' ''invoke''
                     (serializeAvmArgs avm
                        (RunParameters (initPeerId (particle item)) (getPeerId (keyPair p))
                           (timestamp (particle item)) (ttl (particle item)) Ed25519
                           (id' (particle item)) (toEd25519PrivateKey (keyPair p)))
                        (script (particle item)) (prevData g) (data (particle item))
                        (callResults item)) of
                Inl e \<Rightarrow> Inl (toError e)
              | Inr res \<Rightarrow> (case deserializeAvmResult avm res of
                              Inl e \<Rightarrow> Inl (toError e) | Inr r \<Rightarrow> Inr r)))
   \<and> (\<forall>i < length (group_run avm steps q h).
        inv_args (group_run avm steps q h ! i)
          = serializeAvmArgs avm
              (RunParameters (initPeerId (particle (inv_item (group_run avm steps q h ! i))))
                 (getPeerId (keyPair q))
                 (timestamp (particle (inv_item (group_run avm steps q h ! i))))
                 (ttl (particle (inv_item (group_run avm steps q h ! i)))) Ed25519
                 (id' (particle (inv_item (group_run avm steps q h ! i))))
                 (toEd25519PrivateKey (keyPair q)))
              (script (particle (inv_item (group_run avm steps q h ! i))))
              (foldl prevData_after (prevData h)
                 (map inv_result (take i (group_run avm steps q h))))
              (data (particle (inv_item (group_run avm steps q h ! i))))
              (callResults (inv_item (group_run avm steps q h ! i)))
        \<and> inv_result (group_run avm steps q h ! i)
          = (case marineHost_callService (marineHost (inv_world (group_run avm steps q h ! i)))
                   ''avm'' ''invoke'' (inv_args (group_run avm steps q h ! i)) of
               Inl e \<Rightarrow> Inl (toError e)
             | Inr res \<Rightarrow> (case deserializeAvmResult avm res of
                             Inl e \<Rightarrow> Inl (toError e) | Inr r \<Rightarrow> Inr r)))"
  using invokeInterpreter_step [of avm w now p g item]
    invokeInterpreter_stopped [of p avm w now g item]
    invokeInterpreter_trace [of p avm w now g item]
    invokeInterpreter_result [of p avm w now g item]
    group_run_invocations [of avm steps q h]
  by blast

lemma example_run:
  "group_run example_avm example_steps (example_peer :: (string, unit) FluencePeer) new_group
     = [\<lparr>inv_world = world_answering (JNum 0), inv_item = example_item,
         inv_args = [JStr ''(null)'', JNum 0], inv_result = Inr (example_result 0)\<rparr>,
        \<lparr>inv_world = world_answering (JNum 1), inv_item = example_item,
         inv_args = [JStr ''(null)'', JNum 1], inv_result = Inr (example_result 1)\<rparr>,
        \<lparr>inv_world = world_answering JNull, inv_item = example_item,
         inv_args = [JStr ''(null)'', JNum 1],
         inv_result = Inl (Err Error ''not an interpreter result'')\<rparr>,
        \<lparr>inv_world = world_answering (JNum 0), inv_item = example_item,
         inv_args = [JStr ''(null)'', JNum 1], inv_result = Inr (example_result 0)\<rparr>]"
  by (simp add: example_steps_def invokeInterpreter_def ex_defs new_group_def emit_def
      getActualTTL_def Let_def)

theorem prevData_threading_witness:
  "map inv_args (group_run example_avm example_steps
       (example_peer :: (string, unit) FluencePeer) new_group)
     = [serializeAvmArgs example_avm
          (RunParameters ''self'' ''self'' 1000 50 Ed25519 ''p1'' []) ''(null)'' [] [] [],
        serializeAvmArgs example_avm
          (RunParameters ''self'' ''self'' 1000 50 Ed25519 ''p1'' []) ''(null)'' [7] [] [],
        serializeAvmArgs example_avm
          (RunParameters ''self'' ''self'' 1000 50 Ed25519 ''p1'' []) ''(null)'' [7] [] [],
        serializeAvmArgs example_avm
          (RunParameters ''self'' ''self'' 1000 50 Ed25519 ''p1'' []) ''(null)'' [7] [] []]
   \<and> map inv_args (group_run example_avm example_steps
       (example_peer :: (string, unit) FluencePeer) new_group)
     = [[JStr ''(null)'', JNum 0], [JStr ''(null)'', JNum 1], [JStr ''(null)'', JNum 1],
        [JStr ''(null)'', JNum 1]]
   \<and> map inv_result (group_run example_avm example_steps
       (example_peer :: (string, unit) FluencePeer) new_group)
     = [Inr (example_result 0), Inr (example_result 1),
        Inl (Err Error ''not an interpreter result''), Inr (example_result 0)]
   \<and> trace (fst (snd (invokeInterpreter example_avm (world_answering (JNum 0)) 1001
        (started_peer :: (string, unit) FluencePeer) \<lparr>prevData = [7], firstRun = False\<rparr>
        example_item)))
     = [(MarineHostCallService ''avm'' ''invoke'' [JStr ''(null)'', JNum 1], True)]
   \<and> fst (invokeInterpreter example_avm (world_answering (JNum 0)) 1001
        (example_peer :: (string, unit) FluencePeer) \<lparr>prevData = [7], firstRun = False\<rparr>
        example_item) = None"
proof -
  let ?L = "group_run example_avm example_steps (example_peer :: (string, unit) FluencePeer) new_group"
  let ?g = "\<lparr>prevData = [7], firstRun = False\<rparr>"
  have len: "length ?L = 4"
    by (simp add: example_run)
  note t = prevData_threading [of example_avm "world_answering (JNum 0)" 1001
      "started_peer :: (string, unit) FluencePeer" ?g example_item
      example_steps "example_peer :: (string, unit) FluencePeer" new_group]
  note u = prevData_threading [of example_avm "world_answering (JNum 0)" 1001
      "example_peer :: (string, unit) FluencePeer" ?g example_item
      example_steps "example_peer :: (string, unit) FluencePeer" new_group]
  have i: "isInitialized (started_peer :: (string, unit) FluencePeer)"
    and n: "\<not> isInitialized (example_peer :: (string, unit) FluencePeer)"
    by (simp_all add: ex_defs)
  from t i have tr: "trace (fst (snd (invokeInterpreter example_avm (world_answering (JNum 0)) 1001
        (started_peer :: (string, unit) FluencePeer) ?g example_item)))
     = trace (started_peer :: (string, unit) FluencePeer)
       @ [(MarineHostCallService ''avm'' ''invoke''
            (serializeAvmArgs example_avm
               (RunParameters (initPeerId (particle example_item))
                  (getPeerId (keyPair (started_peer :: (string, unit) FluencePeer)))
                  (timestamp (particle example_item)) (ttl (particle example_item)) Ed25519
                  (id' (particle example_item))
                  (toEd25519PrivateKey (keyPair (started_peer :: (string, unit) FluencePeer))))
               (script (particle example_item)) (prevData ?g) (data (particle example_item))
               (callResults example_item)), True)]"
    by blast
  from u n have st: "fst (invokeInterpreter example_avm (world_answering (JNum 0)) 1001
        (example_peer :: (string, unit) FluencePeer) ?g example_item) = None"
    by blast
  from t have all: "\<forall>i < length ?L.
        inv_args (?L ! i)
          = serializeAvmArgs example_avm
              (RunParameters (initPeerId (particle (inv_item (?L ! i))))
                 (getPeerId (keyPair (example_peer :: (string, unit) FluencePeer)))
                 (timestamp (particle (inv_item (?L ! i))))
                 (ttl (particle (inv_item (?L ! i)))) Ed25519
                 (id' (particle (inv_item (?L ! i))))
                 (toEd25519PrivateKey (keyPair (example_peer :: (string, unit) FluencePeer))))
              (script (particle (inv_item (?L ! i))))
              (foldl prevData_after (prevData new_group) (map inv_result (take i ?L)))
              (data (particle (inv_item (?L ! i))))
              (callResults (inv_item (?L ! i)))"
    by blast
  have items: "\<forall>i < 4. inv_item (?L ! i) = example_item"
    by (simp add: example_run nth_Cons' All_less_Suc numeral_nat)
  have res: "map inv_result ?L
     = [Inr (example_result 0), Inr (example_result 1),
        Inl (Err Error ''not an interpreter result''), Inr (example_result 0)]"
    by (simp add: example_run)
  have pd0: "prevData new_group = []"
    by (simp add: new_group_def)
  have given: "\<forall>i < 4. foldl prevData_after (prevData new_group) (map inv_result (take i ?L))
      = [[], [7], [7], [7]] ! i"
    by (simp add: take_map [symmetric] res pd0 prevData_after_def example_result_def
        nth_Cons' All_less_Suc numeral_nat take_Cons')
  have args: "map inv_args ?L
     = [serializeAvmArgs example_avm
          (RunParameters ''self'' ''self'' 1000 50 Ed25519 ''p1'' []) ''(null)'' [] [] [],
        serializeAvmArgs example_avm
          (RunParameters ''self'' ''self'' 1000 50 Ed25519 ''p1'' []) ''(null)'' [7] [] [],
        serializeAvmArgs example_avm
          (RunParameters ''self'' ''self'' 1000 50 Ed25519 ''p1'' []) ''(null)'' [7] [] [],
        serializeAvmArgs example_avm
          (RunParameters ''self'' ''self'' 1000 50 Ed25519 ''p1'' []) ''(null)'' [7] [] []]"
  proof (rule nth_equalityI)
    show "length (map inv_args ?L) = length [serializeAvmArgs example_avm
          (RunParameters ''self'' ''self'' 1000 50 Ed25519 ''p1'' []) ''(null)'' [] [] [],
        serializeAvmArgs example_avm
          (RunParameters ''self'' ''self'' 1000 50 Ed25519 ''p1'' []) ''(null)'' [7] [] [],
        serializeAvmArgs example_avm
          (RunParameters ''self'' ''self'' 1000 50 Ed25519 ''p1'' []) ''(null)'' [7] [] [],
        serializeAvmArgs example_avm
          (RunParameters ''self'' ''self'' 1000 50 Ed25519 ''p1'' []) ''(null)'' [7] [] []]"
      by (simp add: len)
  next
    fix i
    assume "i < length (map inv_args ?L)"
    then have i4: "i < 4" by (simp add: len)
    with all len have a: "inv_args (?L ! i)
          = serializeAvmArgs example_avm
              (RunParameters (initPeerId (particle (inv_item (?L ! i))))
                 (getPeerId (keyPair (example_peer :: (string, unit) FluencePeer)))
                 (timestamp (particle (inv_item (?L ! i))))
                 (ttl (particle (inv_item (?L ! i)))) Ed25519
                 (id' (particle (inv_item (?L ! i))))
                 (toEd25519PrivateKey (keyPair (example_peer :: (string, unit) FluencePeer))))
              (script (particle (inv_item (?L ! i))))
              (foldl prevData_after (prevData new_group) (map inv_result (take i ?L)))
              (data (particle (inv_item (?L ! i))))
              (callResults (inv_item (?L ! i)))"
      by simp
    from items i4 have it: "inv_item (?L ! i) = example_item" by blast
    from given i4 have gv: "foldl prevData_after (prevData new_group) (map inv_result (take i ?L))
      = [[], [7], [7], [7]] ! i" by blast
    from i4 have "i = 0 \<or> i = 1 \<or> i = 2 \<or> i = 3" by arith
    then show "map inv_args ?L ! i = [serializeAvmArgs example_avm
          (RunParameters ''self'' ''self'' 1000 50 Ed25519 ''p1'' []) ''(null)'' [] [] [],
        serializeAvmArgs example_avm
          (RunParameters ''self'' ''self'' 1000 50 Ed25519 ''p1'' []) ''(null)'' [7] [] [],
        serializeAvmArgs example_avm
          (RunParameters ''self'' ''self'' 1000 50 Ed25519 ''p1'' []) ''(null)'' [7] [] [],
        serializeAvmArgs example_avm
          (RunParameters ''self'' ''self'' 1000 50 Ed25519 ''p1'' []) ''(null)'' [7] [] []] ! i"
      using i4 len a it gv
      by (auto simp add: example_peer_def example_item_def example_particle_def)
  qed
  have args2: "map inv_args ?L
     = [[JStr ''(null)'', JNum 0], [JStr ''(null)'', JNum 1], [JStr ''(null)'', JNum 1],
        [JStr ''(null)'', JNum 1]]"
    using args by (simp add: example_avm_def)
  from tr have tr2: "trace (fst (snd (invokeInterpreter example_avm (world_answering (JNum 0)) 1001
        (started_peer :: (string, unit) FluencePeer) ?g example_item)))
     = [(MarineHostCallService ''avm'' ''invoke'' [JStr ''(null)'', JNum 1], True)]"
    by (simp add: ex_defs)
  from args args2 res tr2 st show ?thesis by blast
qed

subsection \<open>callAquaFunction\<close>

lemma registerArg_alt:
  "registerArg part q entry
     = registerParticleScopeService q part
         (case snd entry of
            FunctionArg f \<Rightarrow>
              \<lparr>serviceId_sd = ''callbackSrv'', fnName_sd = fst entry,
               handler_sd = InvokeUserFunction f\<rparr>
          | JsonArg v \<Rightarrow>
              \<lparr>serviceId_sd = ''getDataSrv'', fnName_sd = fst entry,
               handler_sd = ReturnValue v\<rparr>)"
  by (cases "snd entry")
     (simp_all add: registerArg_def Let_def userHandlerService_def injectValueService_def)

lemma foldl_registerArg:
  "foldl (registerArg part) peer xs
     = foldl (\<lambda>q s. registerParticleScopeService q part s) peer
         (map (\<lambda>entry. case snd entry of
                  FunctionArg f \<Rightarrow>
                    \<lparr>serviceId_sd = ''callbackSrv'', fnName_sd = fst entry,
                     handler_sd = InvokeUserFunction f\<rparr>
                | JsonArg v \<Rightarrow>
                    \<lparr>serviceId_sd = ''getDataSrv'', fnName_sd = fst entry,
                     handler_sd = ReturnValue v\<rparr>) xs)"
  by (induction xs arbitrary: peer) (simp_all add: registerArg_alt)

text \<open>
  C8. When the particle has been created, \<open>callAquaFunction\<close> registers, as
  particle-scope services of the new particle and in this order: for each argument,
  \<open>callbackSrv.<name>\<close> invoking the function when the value is a function, and else
  \<open>getDataSrv.<name>\<close> returning the value; \<open>callbackSrv.response\<close>, resolving the
  promise with its first argument, if and only if \<open>fireAndForget\<close> is false;
  \<open>getDataSrv.-relay-\<close>; and the error-handling service, rejecting the promise. It then
  calls \<open>initiateParticle(particle, resolve, reject)\<close>; the promise is rejected if that
  call throws and pending otherwise.
\<close>

theorem callAquaFunction_registrations:
  "createNewParticle createNew peer scr ttl_arg = Inr part \<Longrightarrow>
   callAquaFunction createNew resolve reject scr ttl_arg peer args_list fireAndForget
     = (case initiateParticle
               (foldl (\<lambda>q s. registerParticleScopeService q part s) peer
                  (map (\<lambda>entry. case snd entry of
                           FunctionArg f \<Rightarrow>
                             \<lparr>serviceId_sd = ''callbackSrv'', fnName_sd = fst entry,
                              handler_sd = InvokeUserFunction f\<rparr>
                         | JsonArg v \<Rightarrow>
                             \<lparr>serviceId_sd = ''getDataSrv'', fnName_sd = fst entry,
                              handler_sd = ReturnValue v\<rparr>) args_list
                   @ (if fireAndForget then []
                      else [\<lparr>serviceId_sd = ''callbackSrv'', fnName_sd = ''response'',
                             handler_sd = ResolveWithFirstArgument resolve\<rparr>])
                   @ [\<lparr>serviceId_sd = ''getDataSrv'', fnName_sd = ''-relay-'',
                        handler_sd = ReturnRelayPeerId\<rparr>,
                      \<lparr>serviceId_sd = ''errorHandlingSrv'', fnName_sd = ''error'',
                        handler_sd = RejectWithError reject\<rparr>]))
               part (Callback resolve) (Callback reject) of
          (Inl e, q) \<Rightarrow> (Rejected e, q)
        | (Inr u, q) \<Rightarrow> (Pending, q))"
  by (simp add: callAquaFunction_def Let_def foldl_registerArg
      responseService_def injectRelayService_def errorHandlingService_def)

theorem callAquaFunction_registrations_witness:
  "callAquaFunction example_createNew ''resolve'' ''reject'' ''(null)'' None
     (started_peer :: (string, (string, string) handler) FluencePeer)
     [(''cb'', FunctionArg ''f''), (''x'', JsonArg (JNum 1))] False
   = (Pending,
      started_peer
        \<lparr>jsServiceHost :=
           \<lparr>globalHandlers = [],
            particleHandlers =
              [(''p1'',
                [((''callbackSrv'', ''cb''), InvokeUserFunction ''f''),
                 ((''getDataSrv'', ''x''), ReturnValue (JNum 1)),
                 ((''callbackSrv'', ''response''), ResolveWithFirstArgument ''resolve''),
                 ((''getDataSrv'', ''-relay-''), ReturnRelayPeerId),
                 ((''errorHandlingSrv'', ''error''), RejectWithError ''reject'')])]\<rparr>,
         incomingParticles :=
           [\<lparr>particle = example_particle\<lparr>ttl := 7000\<rparr>, callResults = [],
             onSuccess = Callback ''resolve'', onError = Callback ''reject''\<rparr>]\<rparr>)"
proof -
  have c: "createNewParticle example_createNew
      (started_peer :: (string, (string, string) handler) FluencePeer) ''(null)'' None
      = Inr (example_particle\<lparr>ttl := 7000\<rparr>)"
    by (simp add: createNewParticle_def example_createNew_def ex_defs)
  show ?thesis
    using callAquaFunction_registrations [OF c, of "''resolve''" "''reject''"
        "[(''cb'', FunctionArg ''f''), (''x'', JsonArg (JNum 1))]" False]
    by (simp add: registerParticleScopeService_def registerParticleScopeHandler_def set_key_def
        scope_of_def initiateParticle_def incomingParticles_next_def ex_defs)
qed

lemma scope_of_registerParticleScopeHandler:
  "scope_of (registerParticleScopeHandler pid sid fn h host) pid
     = set_key (sid, fn) h (scope_of host pid)"
  by (simp add: scope_of_def registerParticleScopeHandler_def map_of_set_key)

lemma particleHandler_register:
  "particleHandler (jsServiceHost (registerParticleScopeService q part s)) (id' part) sid fn
     = (if sid = serviceId_sd s \<and> fn = fnName_sd s then Some (handler_sd s)
        else particleHandler (jsServiceHost q) (id' part) sid fn)"
  by (auto simp add: particleHandler_def registerParticleScopeService_def
      scope_of_registerParticleScopeHandler map_of_set_key)

lemma jsServiceHost_initiateParticle:
  "jsServiceHost (snd (initiateParticle p part s e)) = jsServiceHost p"
  by (simp add: initiateParticle_def incomingParticles_next_def emit_def Let_def)

lemma callAquaFunction_registry:
  "createNewParticle createNew peer scr ttl_arg = Inr part \<Longrightarrow>
   particleHandler
       (jsServiceHost (snd (callAquaFunction createNew resolve reject scr ttl_arg peer args_list ff)))
       (id' part) ''errorHandlingSrv'' ''error'' = Some (RejectWithError reject)
   \<and> particleHandler
       (jsServiceHost (snd (callAquaFunction createNew resolve reject scr ttl_arg peer args_list ff)))
       (id' part) ''getDataSrv'' ''-relay-'' = Some ReturnRelayPeerId
   \<and> (\<not> ff \<longrightarrow> particleHandler
       (jsServiceHost (snd (callAquaFunction createNew resolve reject scr ttl_arg peer args_list ff)))
       (id' part) ''callbackSrv'' ''response'' = Some (ResolveWithFirstArgument resolve))"
proof -
  assume c: "createNewParticle createNew peer scr ttl_arg = Inr part"
  have snd_case: "snd (case x of (Inl e, q) \<Rightarrow> (Rejected e, q) | (Inr u, q) \<Rightarrow> (Pending, q)) = snd x"
    for x :: "(thrown + unit) \<times> ('a, ('b, 'a) handler) FluencePeer"
    by (cases x) (simp split: sum.splits)
  show ?thesis
    by (simp add: callAquaFunction_def c Let_def snd_case jsServiceHost_initiateParticle
        particleHandler_register responseService_def injectRelayService_def
        errorHandlingService_def)
qed

end
